theory Spec2Isabelle
  imports Main "HOL-Library.Sublist"
begin

section \<open>Data model\<close>

text \<open>
  Go errors. \<open>errors.New msg\<close> is \<open>errorString msg\<close>; an error handed back by
  \<open>os.File.Stat\<close> is a \<open>PathError\<close>; an error produced by the HTTP client
  (request construction or execution) is a \<open>ClientError\<close>.
\<close>

datatype error = errorString string | PathError string | ClientError string

fun Error :: "error \<Rightarrow> string" where
  "Error (errorString s) = s"
| "Error (PathError s) = s"
| "Error (ClientError s) = s"

text \<open>
  A value passed as \<open>body interface{}\<close>: \<open>nil\<close>, a Go string, or a struct whose
  fields are listed in declaration order under their \<open>json:"..."\<close> tag.
\<close>

datatype goval =
    GoNil
  | GoString string
  | GoBool bool
  | GoInt int
  | GoStruct "(string \<times> goval) list"

text \<open>The part of \<open>*Response\<close> the operations read: the numeric status code.\<close>

record Response =
  StatusCode :: int

text \<open>
  \<open>*os.File\<close> as far as the operations use it: its name, the result of \<open>Stat()\<close>
  and the bytes it holds. A nil file is covered by \<open>Stat\<close> failing, which is
  what \<open>os\<close> does for a nil receiver.
\<close>

record FileInfo =
  IsDir :: bool
  Size :: int

record File =
  Name :: string
  Stat :: "error + FileInfo"
  Contents :: string

record CommonProperties_Ha =
  Role :: string

record CommonProperties =
  Ha :: CommonProperties_Ha
  Description :: string

record Version =
  Version :: string

record MasterConfiguration =
  HAEnabled :: bool
  AllowedShadowHost :: string

record MasterState =
  State :: string
  ShadowHost :: string

record Link =
  Href :: string

record ShadowConfiguration_Links =
  Self :: Link
  State :: Link

record ShadowConfiguration =
  MasterHost :: string
  MasterPort :: string
  CheckIntervalInSeconds :: int
  TakeoverDelayInSeconds :: int
  OwnHost :: string
  ConnectTimeoutInMillis :: int
  RequestTimeoutInMillis :: int
  Links :: ShadowConfiguration_Links

record ShadowState =
  State :: string
  OwnHosts :: string
  StateMessage :: string
  MasterVersions :: string

text \<open>Zero values, as \<open>new(T)\<close> allocates them.\<close>

definition new_CommonProperties :: CommonProperties where
  "new_CommonProperties = \<lparr>Ha = \<lparr>Role = ''''\<rparr>, Description = ''''\<rparr>"

definition new_Version :: Version where
  "new_Version = \<lparr>Version = ''''\<rparr>"

definition new_MasterConfiguration :: MasterConfiguration where
  "new_MasterConfiguration = \<lparr>HAEnabled = False, AllowedShadowHost = ''''\<rparr>"

definition new_MasterState :: MasterState where
  "new_MasterState = \<lparr>MasterState.State = '''', ShadowHost = ''''\<rparr>"

definition new_ShadowConfiguration :: ShadowConfiguration where
  "new_ShadowConfiguration =
     \<lparr>MasterHost = '''', MasterPort = '''', CheckIntervalInSeconds = 0,
      TakeoverDelayInSeconds = 0, OwnHost = '''', ConnectTimeoutInMillis = 0,
      RequestTimeoutInMillis = 0,
      Links = \<lparr>Self = \<lparr>Href = ''''\<rparr>,
               ShadowConfiguration_Links.State = \<lparr>Href = ''''\<rparr>\<rparr>\<rparr>"

definition new_ShadowState :: ShadowState where
  "new_ShadowState =
     \<lparr>ShadowState.State = '''', OwnHosts = '''', StateMessage = '''', MasterVersions = ''''\<rparr>"

text \<open>
  The struct values handed to the request builders, with the JSON tags of their
  declarations (ha.go lines 47-50 and 154-170).
\<close>

definition MasterConfiguration_value :: "MasterConfiguration \<Rightarrow> goval" where
  "MasterConfiguration_value m =
     GoStruct [(''haEnabled'', GoBool (HAEnabled m)),
               (''allowedShadowHost'', GoString (AllowedShadowHost m))]"

definition Link_value :: "Link \<Rightarrow> goval" where
  "Link_value l = GoStruct [(''href'', GoString (Href l))]"

definition ShadowConfiguration_value :: "ShadowConfiguration \<Rightarrow> goval" where
  "ShadowConfiguration_value s =
     GoStruct [(''masterHost'', GoString (MasterHost s)),
               (''masterPort'', GoString (MasterPort s)),
               (''checkIntervalInSeconds'', GoInt (CheckIntervalInSeconds s)),
               (''takeoverDelayInSeconds'', GoInt (TakeoverDelayInSeconds s)),
               (''ownHost'', GoString (OwnHost s)),
               (''connectTimeoutInMillis'', GoInt (ConnectTimeoutInMillis s)),
               (''requestTimeoutInMillis'', GoInt (RequestTimeoutInMillis s)),
               (''_links'', GoStruct [(''self'', Link_value (Self (Links s))),
                                      (''state'', Link_value (ShadowConfiguration_Links.State (Links s)))])]"

section \<open>Standard-library functions the operations call\<close>

text \<open>\<open>strconv.Itoa\<close>: the decimal rendering of an integer, with a leading minus sign.\<close>

definition digit :: "nat \<Rightarrow> char" where
  "digit d = ''0123456789'' ! (d mod 10)"

fun formatBits :: "nat \<Rightarrow> string" where
  "formatBits u = (if u < 10 then [digit u] else formatBits (u div 10) @ [digit (u mod 10)])"

definition Itoa :: "int \<Rightarrow> string" where
  "Itoa i = (if i < 0 then CHR ''-'' # formatBits (nat (- i)) else formatBits (nat i))"

text \<open>
  Reading a string of decimal digits back as a number, to state what \<open>Itoa\<close>
  renders.
\<close>

definition decimal_value :: "string \<Rightarrow> nat" where
  "decimal_value s = foldl (\<lambda>acc ch. 10 * acc + (of_char ch - 48)) 0 s"

text \<open>
  \<open>filepath.Ext\<close>: scanning from the end of the path and stopping at a separator,
  the suffix that starts at the last dot of the last path element; empty when there
  is none. \<open>ext_scan\<close> walks the reversed path and carries the suffix passed so far.
\<close>

fun ext_scan :: "string \<Rightarrow> string \<Rightarrow> string" where
  "ext_scan [] suf = ''''"
| "ext_scan (ch # rest) suf =
     (if ch = CHR ''/'' then ''''
      else if ch = CHR ''.'' then ch # suf
      else ext_scan rest (ch # suf))"

definition Ext :: "string \<Rightarrow> string" where
  "Ext path = ext_scan (rev path) []"

section \<open>The HTTP client the services share\<close>

text \<open>
  The client is supplied from outside the three source files, so it is a parameter:
  a record of its four methods. Every method runs in a world \<open>'w\<close> (the network, the
  server, the client's own state) and returns the world it leaves behind. Go's
  \<open>(value, error)\<close> results are pairs of options, \<open>None\<close> being \<open>nil\<close>.

  \<open>Do ctx req v\<close>: the third argument is the destination \<open>v\<close> as a cell, \<open>None\<close> for a
  nil destination and \<open>Some x\<close> for a pointer whose target holds \<open>x\<close>; the first
  component of the result is that cell after the call.
\<close>

record ('ctx, 'req, 'v, 'w) Client =
  NewRequest :: "string \<Rightarrow> string \<Rightarrow> goval \<Rightarrow> 'w \<Rightarrow> ('req option \<times> error option) \<times> 'w"
  NewShadowRequest :: "string \<Rightarrow> string \<Rightarrow> goval \<Rightarrow> 'w \<Rightarrow> ('req option \<times> error option) \<times> 'w"
  NewUploadRequest ::
    "string \<Rightarrow> string \<Rightarrow> File \<Rightarrow> int \<Rightarrow> string \<Rightarrow> 'w \<Rightarrow> ('req option \<times> error option) \<times> 'w"
  Do :: "'ctx \<Rightarrow> 'req option \<Rightarrow> 'v option \<Rightarrow> 'w
           \<Rightarrow> ('v option \<times> Response option \<times> error option) \<times> 'w"

text \<open>
  The result of an operation that dereferences the response: it returns, or it
  panics on a nil response that came with a nil error.
\<close>

datatype 'a outcome = Return 'a | Panic

section \<open>Backup service\<close>

definition CreateBackup ::
  "('ctx, 'req, File, 'w) Client \<Rightarrow> 'ctx \<Rightarrow> string \<Rightarrow> File \<Rightarrow> 'w
     \<Rightarrow> (Response option \<times> error option) \<times> 'w" where
  "CreateBackup c ctx password file w =
     (case NewRequest c ''POST'' ''api/v1/configuration/backup''
             (GoStruct [(''password'', GoString password)]) w of
        ((req, err), w1) \<Rightarrow>
          if err \<noteq> None then ((None, err), w1)
          else (case Do c ctx req (Some file) w1 of
                  ((cell, resp, err), w2) \<Rightarrow>
                    if err \<noteq> None then ((resp, err), w2)
                    else ((resp, None), w2)))"

text \<open>
  \<open>mime.TypeByExtension\<close> reads the host's MIME tables, so the table is the
  parameter \<open>TypeByExtension\<close>.
\<close>

definition RestoreBackup ::
  "(string \<Rightarrow> string) \<Rightarrow> ('ctx, 'req, 'v, 'w) Client \<Rightarrow> 'ctx \<Rightarrow> string \<Rightarrow> File \<Rightarrow> 'w
     \<Rightarrow> (Response option \<times> error option) outcome \<times> 'w" where
  "RestoreBackup TypeByExtension c ctx password file w =
     (case Stat file of
        Inl err \<Rightarrow> (Return (None, Some err), w)
      | Inr stat \<Rightarrow>
          if IsDir stat
          then (Return (None, Some (errorString
                  ''the asset to upload can't be a directory'')), w)
          else
            (let mediaType = TypeByExtension (Ext (Name file)) in
             case NewUploadRequest c ''PUT'' ''api/v1/configuration/backup''
                    file (Size stat) mediaType w of
               ((req, err), w1) \<Rightarrow>
                 if err \<noteq> None then (Return (None, err), w1)
                 else (case Do c ctx req None w1 of
                         ((cell, resp, err), w2) \<Rightarrow>
                           if err \<noteq> None then (Return (resp, err), w2)
                           else (case resp of
                                   None \<Rightarrow> (Panic, w2)
                                 | Some r \<Rightarrow>
                                     if StatusCode r \<noteq> 204
                                     then (Return (resp, Some (errorString
                                             (''backup restore failed with status code ''
                                                @ Itoa (StatusCode r)))), w2)
                                     else (Return (resp, None), w2)))))"

section \<open>Common properties service\<close>

definition GetCommonProperties ::
  "('ctx, 'req, CommonProperties, 'w) Client \<Rightarrow> 'ctx \<Rightarrow> 'w
     \<Rightarrow> (CommonProperties option \<times> Response option \<times> error option) \<times> 'w" where
  "GetCommonProperties c ctx w =
     (case NewRequest c ''GET'' ''api/v1/configuration/connector''
             GoNil w of
        ((req, err), w1) \<Rightarrow>
          if err \<noteq> None then ((None, None, err), w1)
          else
            (let commonProperties = Some new_CommonProperties in
             case Do c ctx req commonProperties w1 of
               ((commonProperties, resp, err), w2) \<Rightarrow>
                 if err \<noteq> None then ((None, resp, err), w2)
                 else ((commonProperties, resp, None), w2)))"

definition GetVersion ::
  "('ctx, 'req, Version, 'w) Client \<Rightarrow> 'ctx \<Rightarrow> 'w
     \<Rightarrow> (Version option \<times> Response option \<times> error option) \<times> 'w" where
  "GetVersion c ctx w =
     (case NewRequest c ''GET'' ''api/v1/connector/version''
             GoNil w of
        ((req, err), w1) \<Rightarrow>
          if err \<noteq> None then ((None, None, err), w1)
          else
            (let version = Some new_Version in
             case Do c ctx req version w1 of
               ((version, resp, err), w2) \<Rightarrow>
                 if err \<noteq> None then ((None, resp, err), w2)
                 else ((version, resp, None), w2)))"

definition SetDescription ::
  "('ctx, 'req, CommonProperties, 'w) Client \<Rightarrow> 'ctx \<Rightarrow> string \<Rightarrow> 'w
     \<Rightarrow> (CommonProperties option \<times> Response option \<times> error option) \<times> 'w" where
  "SetDescription c ctx description w =
     (case NewRequest c ''PUT'' ''api/v1/configuration/connector''
             (GoStruct [(''description'', GoString description)]) w of
        ((req, err), w1) \<Rightarrow>
          if err \<noteq> None then ((None, None, err), w1)
          else
            (let commonProperties = Some new_CommonProperties in
             case Do c ctx req commonProperties w1 of
               ((commonProperties, resp, err), w2) \<Rightarrow>
                 if err \<noteq> None then ((None, resp, err), w2)
                 else ((commonProperties, resp, None), w2)))"

section \<open>High-availability service\<close>

text \<open>
  \<open>GetHASettings\<close> hands \<open>Do\<close> the address of a local \<open>bytes.Buffer\<close>, empty at
  first, and returns \<open>b.String()\<close>: the bytes the buffer holds after the call.
\<close>

definition GetHASettings ::
  "('ctx, 'req, string, 'w) Client \<Rightarrow> 'ctx \<Rightarrow> 'w
     \<Rightarrow> (string \<times> Response option \<times> error option) \<times> 'w" where
  "GetHASettings c ctx w =
     (case NewRequest c ''GET'' ''api/v1/configuration/connector/haRole''
             GoNil w of
        ((req, err), w1) \<Rightarrow>
          if err \<noteq> None then (('''', None, err), w1)
          else
            (let b = Some '''' in
             case Do c ctx req b w1 of
               ((b, resp, err), w2) \<Rightarrow>
                 if err \<noteq> None then (('''', resp, err), w2)
                 else (((case b of Some bytes \<Rightarrow> bytes | None \<Rightarrow> ''''), resp, None), w2)))"

definition SetHASettings ::
  "('ctx, 'req, 'v, 'w) Client \<Rightarrow> 'ctx \<Rightarrow> string \<Rightarrow> 'w
     \<Rightarrow> (Response option \<times> error option) \<times> 'w" where
  "SetHASettings c ctx role w =
     (case NewRequest c ''POST'' ''api/v1/configuration/connector/haRole''
             (GoString role) w of
        ((req, err), w1) \<Rightarrow>
          if err \<noteq> None then ((None, err), w1)
          else (case Do c ctx req None w1 of
                  ((cell, resp, err), w2) \<Rightarrow>
                    if err \<noteq> None then ((resp, err), w2)
                    else ((resp, None), w2)))"

definition GetMasterConfiguration ::
  "('ctx, 'req, MasterConfiguration, 'w) Client \<Rightarrow> 'ctx \<Rightarrow> 'w
     \<Rightarrow> (MasterConfiguration option \<times> Response option \<times> error option) \<times> 'w" where
  "GetMasterConfiguration c ctx w =
     (case NewRequest c ''GET'' ''api/v1/configuration/connector/ha/master/config''
             GoNil w of
        ((req, err), w1) \<Rightarrow>
          if err \<noteq> None then ((None, None, err), w1)
          else
            (let masterConfig = Some new_MasterConfiguration in
             case Do c ctx req masterConfig w1 of
               ((masterConfig, resp, err), w2) \<Rightarrow>
                 if err \<noteq> None then ((None, resp, err), w2)
                 else ((masterConfig, resp, None), w2)))"

definition SetMasterConfiguration ::
  "('ctx, 'req, MasterConfiguration, 'w) Client \<Rightarrow> 'ctx \<Rightarrow> bool \<Rightarrow> string \<Rightarrow> 'w
     \<Rightarrow> (MasterConfiguration option \<times> Response option \<times> error option) \<times> 'w" where
  "SetMasterConfiguration c ctx haEnabled allowedShadowHost w =
     (case NewRequest c ''PUT'' ''api/v1/configuration/connector/ha/master/config''
             (MasterConfiguration_value
                \<lparr>HAEnabled = haEnabled, AllowedShadowHost = allowedShadowHost\<rparr>) w of
        ((req, err), w1) \<Rightarrow>
          if err \<noteq> None then ((None, None, err), w1)
          else
            (let masterConfig = Some new_MasterConfiguration in
             case Do c ctx req masterConfig w1 of
               ((masterConfig, resp, err), w2) \<Rightarrow>
                 if err \<noteq> None then ((None, resp, err), w2)
                 else ((masterConfig, resp, None), w2)))"

definition GetMasterState ::
  "('ctx, 'req, MasterState, 'w) Client \<Rightarrow> 'ctx \<Rightarrow> 'w
     \<Rightarrow> (MasterState option \<times> Response option \<times> error option) \<times> 'w" where
  "GetMasterState c ctx w =
     (case NewRequest c ''GET'' ''api/v1/configuration/connector/ha/master/state''
             GoNil w of
        ((req, err), w1) \<Rightarrow>
          if err \<noteq> None then ((None, None, err), w1)
          else
            (let masterState = Some new_MasterState in
             case Do c ctx req masterState w1 of
               ((masterState, resp, err), w2) \<Rightarrow>
                 if err \<noteq> None then ((None, resp, err), w2)
                 else ((masterState, resp, None), w2)))"

definition SetMasterState ::
  "('ctx, 'req, MasterState, 'w) Client \<Rightarrow> 'ctx \<Rightarrow> string \<Rightarrow> 'w
     \<Rightarrow> (MasterState option \<times> Response option \<times> error option) \<times> 'w" where
  "SetMasterState c ctx op w =
     (case NewRequest c ''POST'' ''api/v1/configuration/connector/ha/master/state''
             (GoStruct [(''op'', GoString op)]) w of
        ((req, err), w1) \<Rightarrow>
          if err \<noteq> None then ((None, None, err), w1)
          else
            (let masterState = Some new_MasterState in
             case Do c ctx req masterState w1 of
               ((masterState, resp, err), w2) \<Rightarrow>
                 if err \<noteq> None then ((None, resp, err), w2)
                 else ((masterState, resp, None), w2)))"

definition ResetMaster ::
  "('ctx, 'req, 'v, 'w) Client \<Rightarrow> 'ctx \<Rightarrow> 'w
     \<Rightarrow> (Response option \<times> error option) outcome \<times> 'w" where
  "ResetMaster c ctx w =
     (case NewRequest c ''DELETE'' ''api/v1/configuration/connector/ha/master/state''
             GoNil w of
        ((req, err), w1) \<Rightarrow>
          if err \<noteq> None then (Return (None, err), w1)
          else (case Do c ctx req None w1 of
                  ((cell, resp, err), w2) \<Rightarrow>
                    if err \<noteq> None then (Return (resp, err), w2)
                    else (case resp of
                            None \<Rightarrow> (Panic, w2)
                          | Some r \<Rightarrow>
                              if StatusCode r \<noteq> 204
                              then (Return (resp, Some (errorString
                                      (''master reset failed with status code ''
                                         @ Itoa (StatusCode r)))), w2)
                              else (Return (resp, None), w2))))"

definition GetShadowConfiguration ::
  "('ctx, 'req, ShadowConfiguration, 'w) Client \<Rightarrow> 'ctx \<Rightarrow> 'w
     \<Rightarrow> (ShadowConfiguration option \<times> Response option \<times> error option) \<times> 'w" where
  "GetShadowConfiguration c ctx w =
     (case NewShadowRequest c ''GET'' ''api/v1/configuration/connector/ha/shadow/config''
             GoNil w of
        ((req, err), w1) \<Rightarrow>
          if err \<noteq> None then ((None, None, err), w1)
          else
            (let shadowConfig = Some new_ShadowConfiguration in
             case Do c ctx req shadowConfig w1 of
               ((shadowConfig, resp, err), w2) \<Rightarrow>
                 if err \<noteq> None then ((None, resp, err), w2)
                 else ((shadowConfig, resp, None), w2)))"

text \<open>The composite literal of \<open>SetShadowConfiguration\<close> names seven fields; \<open>Links\<close> keeps its zero value.\<close>

definition SetShadowConfiguration ::
  "('ctx, 'req, ShadowConfiguration, 'w) Client \<Rightarrow> 'ctx \<Rightarrow> string \<Rightarrow> string \<Rightarrow> string \<Rightarrow> int \<Rightarrow> int \<Rightarrow> int \<Rightarrow> int \<Rightarrow> 'w
     \<Rightarrow> (ShadowConfiguration option \<times> Response option \<times> error option) \<times> 'w" where
  "SetShadowConfiguration c ctx masterHost masterPort ownHost checkIntervalInSeconds takeoverDelayInSeconds connectTimeoutInMillis requestTimeoutInMillis w =
     (case NewShadowRequest c ''PUT'' ''api/v1/configuration/connector/ha/shadow/config''
             (ShadowConfiguration_value
                (new_ShadowConfiguration
                   \<lparr>MasterHost := masterHost,
                    MasterPort := masterPort,
                    CheckIntervalInSeconds := checkIntervalInSeconds,
                    TakeoverDelayInSeconds := takeoverDelayInSeconds,
                    OwnHost := ownHost,
                    ConnectTimeoutInMillis := connectTimeoutInMillis,
                    RequestTimeoutInMillis := requestTimeoutInMillis\<rparr>)) w of
        ((req, err), w1) \<Rightarrow>
          if err \<noteq> None then ((None, None, err), w1)
          else
            (let shadowConfigResp = Some new_ShadowConfiguration in
             case Do c ctx req shadowConfigResp w1 of
               ((shadowConfigResp, resp, err), w2) \<Rightarrow>
                 if err \<noteq> None then ((None, resp, err), w2)
                 else ((shadowConfigResp, resp, None), w2)))"

definition GetShawodState ::
  "('ctx, 'req, ShadowState, 'w) Client \<Rightarrow> 'ctx \<Rightarrow> string \<Rightarrow> 'w
     \<Rightarrow> (ShadowState option \<times> Response option \<times> error option) \<times> 'w" where
  "GetShawodState c ctx description w =
     (case NewShadowRequest c ''GET'' ''api/v1/configuration/connector/ha/shadow/state''
             GoNil w of
        ((req, err), w1) \<Rightarrow>
          if err \<noteq> None then ((None, None, err), w1)
          else
            (let shadowState = Some new_ShadowState in
             case Do c ctx req shadowState w1 of
               ((shadowState, resp, err), w2) \<Rightarrow>
                 if err \<noteq> None then ((None, resp, err), w2)
                 else ((shadowState, resp, None), w2)))"

definition ChangeShadowState ::
  "('ctx, 'req, 'v, 'w) Client \<Rightarrow> 'ctx \<Rightarrow> string \<Rightarrow> string \<Rightarrow> string \<Rightarrow> 'w
     \<Rightarrow> (Response option \<times> error option) outcome \<times> 'w" where
  "ChangeShadowState c ctx op user password w =
     (case NewShadowRequest c ''POST'' ''api/v1/configuration/connector/ha/shadow/state''
             (GoStruct [(''op'', GoString op), (''user'', GoString user),
                        (''password'', GoString password)]) w of
        ((req, err), w1) \<Rightarrow>
          if err \<noteq> None then (Return (None, err), w1)
          else (case Do c ctx req None w1 of
                  ((cell, resp, err), w2) \<Rightarrow>
                    if err \<noteq> None then (Return (resp, err), w2)
                    else (case resp of
                            None \<Rightarrow> (Panic, w2)
                          | Some r \<Rightarrow>
                              if StatusCode r \<noteq> 204
                              then (Return (resp, Some (errorString
                                      (''shadow reset failed with status code ''
                                         @ Itoa (StatusCode r)))), w2)
                              else (Return (resp, None), w2))))"

definition ResetShadow ::
  "('ctx, 'req, 'v, 'w) Client \<Rightarrow> 'ctx \<Rightarrow> 'w
     \<Rightarrow> (Response option \<times> error option) outcome \<times> 'w" where
  "ResetShadow c ctx w =
     (case NewShadowRequest c ''DELETE'' ''api/v1/configuration/connector/ha/shadow/state''
             GoNil w of
        ((req, err), w1) \<Rightarrow>
          if err \<noteq> None then (Return (None, err), w1)
          else (case Do c ctx req None w1 of
                  ((cell, resp, err), w2) \<Rightarrow>
                    if err \<noteq> None then (Return (resp, err), w2)
                    else (case resp of
                            None \<Rightarrow> (Panic, w2)
                          | Some r \<Rightarrow>
                              if StatusCode r \<noteq> 204
                              then (Return (resp, Some (errorString
                                      (''shadow reset failed with status code ''
                                         @ Itoa (StatusCode r)))), w2)
                              else (Return (resp, None), w2))))"

section \<open>Observing which client methods an operation invokes\<close>

text \<open>
  One entry per invocation of a client method, with its arguments.
\<close>

datatype ('ctx, 'req, 'v) call =
    NewRequestCall string string goval
  | NewShadowRequestCall string string goval
  | NewUploadRequestCall string string File int string
  | DoCall 'ctx "'req option" "'v option"

fun is_builder :: "('ctx, 'req, 'v) call \<Rightarrow> bool" where
  "is_builder (DoCall ctx req v) = False"
| "is_builder other = True"

text \<open>
  \<open>recording c\<close> behaves as the client \<open>c\<close> and appends every invocation to a log
  kept beside the world of \<open>c\<close>: the stub collaborator that records which method
  was invoked.
\<close>

definition recording ::
  "('ctx, 'req, 'v, 'w) Client
     \<Rightarrow> ('ctx, 'req, 'v, 'w \<times> ('ctx, 'req, 'v) call list) Client" where
  "recording c =
     \<lparr>NewRequest = (\<lambda>method url body (w, log).
        case NewRequest c method url body w of
          (res, w') \<Rightarrow> (res, (w', log @ [NewRequestCall method url body]))),
      NewShadowRequest = (\<lambda>method url body (w, log).
        case NewShadowRequest c method url body w of
          (res, w') \<Rightarrow> (res, (w', log @ [NewShadowRequestCall method url body]))),
      NewUploadRequest = (\<lambda>method url file size mediaType (w, log).
        case NewUploadRequest c method url file size mediaType w of
          (res, w') \<Rightarrow>
            (res, (w', log @ [NewUploadRequestCall method url file size mediaType]))),
      Do = (\<lambda>ctx req v (w, log).
        case Do c ctx req v w of
          (res, w') \<Rightarrow> (res, (w', log @ [DoCall ctx req v])))\<rparr>"

section \<open>Stub clients\<close>

text \<open>The request a stub builder hands out: which builder made it, and from what.\<close>

datatype stub_request =
    Plain string string goval
  | Shadow string string goval
  | Upload string string File int string

text \<open>
  \<open>serving v status\<close>: every builder succeeds; \<open>Do\<close> stores \<open>v\<close> in a non-nil
  destination and answers with \<open>status\<close> and no error. Its world counts the
  requests executed.
\<close>

definition serving :: "'v \<Rightarrow> int \<Rightarrow> (unit, stub_request, 'v, nat) Client" where
  "serving v status =
     \<lparr>NewRequest = (\<lambda>method url body w. ((Some (Plain method url body), None), w)),
      NewShadowRequest = (\<lambda>method url body w. ((Some (Shadow method url body), None), w)),
      NewUploadRequest = (\<lambda>method url file size mediaType w.
        ((Some (Upload method url file size mediaType), None), w)),
      Do = (\<lambda>ctx req dest w.
        ((map_option (\<lambda>old. v) dest, Some \<lparr>StatusCode = status\<rparr>, None), Suc w))\<rparr>"

text \<open>\<open>refusing\<close>: every builder fails; \<open>Do\<close> is that of \<open>serving\<close>.\<close>

definition refusing :: "'v \<Rightarrow> (unit, stub_request, 'v, nat) Client" where
  "refusing v =
     (serving v 200)
       \<lparr>NewRequest := (\<lambda>method url body w. ((None, Some (ClientError ''bad url'')), w)),
        NewShadowRequest := (\<lambda>method url body w. ((None, Some (ClientError ''bad url'')), w)),
        NewUploadRequest := (\<lambda>method url file size mediaType w.
          ((None, Some (ClientError ''bad url'')), w))\<rparr>"

text \<open>
  A master instance that keeps its configuration as one resource, at
  \<open>api/v1/configuration/connector/ha/master/config\<close>, and echoes it. The world
  is the stored configuration.

  \<open>parse_MasterConfiguration\<close> reads the body of a \<open>PUT\<close>: a struct that has the
  Boolean \<open>haEnabled\<close> and the string \<open>allowedShadowHost\<close>.
\<close>

fun parse_MasterConfiguration :: "goval \<Rightarrow> MasterConfiguration option" where
  "parse_MasterConfiguration (GoStruct fs) =
     (case (map_of fs ''haEnabled'', map_of fs ''allowedShadowHost'') of
        (Some (GoBool b), Some (GoString h)) \<Rightarrow>
          Some \<lparr>HAEnabled = b, AllowedShadowHost = h\<rparr>
      | _ \<Rightarrow> None)"
| "parse_MasterConfiguration other = None"

text \<open>
  What the echoing server does with a request, and what \<open>Do\<close> makes of the
  answer. Only a request made by \<open>NewRequest\<close> for the path of the resource reaches
  it: a \<open>GET\<close> is answered 200 with the stored configuration, which is decoded into
  a non-nil destination; a \<open>PUT\<close> with a well-formed body stores that body and is
  answered 200 with it. Everything else leaves the destination and the stored
  configuration alone and comes back with an error: 400 for a \<open>PUT\<close> without a
  configuration, 405 for another method, 404 for another path or an upload, 403 for
  a request made by \<open>NewShadowRequest\<close> (a master rejects those), and no response
  at all for a nil request.
\<close>

fun echo_Do ::
  "stub_request option \<Rightarrow> MasterConfiguration option \<Rightarrow> MasterConfiguration
     \<Rightarrow> (MasterConfiguration option \<times> Response option \<times> error option)
         \<times> MasterConfiguration" where
  "echo_Do None dest stored =
     ((dest, None, Some (ClientError ''nil request'')), stored)"
| "echo_Do (Some (Plain method url body)) dest stored =
     (if url \<noteq> ''api/v1/configuration/connector/ha/master/config''
      then ((dest, Some \<lparr>StatusCode = 404\<rparr>, Some (ClientError ''not found'')), stored)
      else if method = ''GET''
      then ((map_option (\<lambda>old. stored) dest, Some \<lparr>StatusCode = 200\<rparr>, None), stored)
      else if method = ''PUT''
      then (case parse_MasterConfiguration body of
              None \<Rightarrow>
                ((dest, Some \<lparr>StatusCode = 400\<rparr>, Some (ClientError ''bad request'')), stored)
            | Some sent \<Rightarrow>
                ((map_option (\<lambda>old. sent) dest, Some \<lparr>StatusCode = 200\<rparr>, None), sent))
      else ((dest, Some \<lparr>StatusCode = 405\<rparr>, Some (ClientError ''method not allowed'')),
            stored))"
| "echo_Do (Some (Shadow method url body)) dest stored =
     ((dest, Some \<lparr>StatusCode = 403\<rparr>, Some (ClientError ''forbidden'')), stored)"
| "echo_Do (Some (Upload method url f n mediaType)) dest stored =
     ((dest, Some \<lparr>StatusCode = 404\<rparr>, Some (ClientError ''not found'')), stored)"

text \<open>
  \<open>echo\<close>: the client in front of the echoing server. Its builders succeed and
  record what they were given; its \<open>Do\<close> is \<open>echo_Do\<close>.
\<close>

definition echo :: "(unit, stub_request, MasterConfiguration, MasterConfiguration) Client" where
  "echo =
     \<lparr>NewRequest = (\<lambda>method url body w. ((Some (Plain method url body), None), w)),
      NewShadowRequest = (\<lambda>method url body w. ((Some (Shadow method url body), None), w)),
      NewUploadRequest = (\<lambda>method url file size mediaType w.
        ((Some (Upload method url file size mediaType), None), w)),
      Do = (\<lambda>ctx req dest stored. echo_Do req dest stored)\<rparr>"

text \<open>Files for the concrete runs: a backup archive and a directory.\<close>

definition backup_zip :: File where
  "backup_zip =
     \<lparr>Name = ''/tmp/backup.zip'', Stat = Inr \<lparr>IsDir = False, Size = 3\<rparr>, Contents = ''PK!''\<rparr>"

definition tmp_dir :: File where
  "tmp_dir =
     \<lparr>Name = ''/tmp'', Stat = Inr \<lparr>IsDir = True, Size = 4096\<rparr>, Contents = ''''\<rparr>"

definition mime_table :: "string \<Rightarrow> string" where
  "mime_table ext = (if ext = ''.zip'' then ''application/zip'' else '''')"

section \<open>The request builder, as the specification describes it\<close>

text \<open>
  Modelled from the spec: the request a builder of the client produces is not
  declared in the sources; this is its method, its path and the bytes of its body,
  if it has one.
\<close>

record Request =
  Method :: string
  URL :: string
  Body :: "string option"

text \<open>
  Modelled from the spec: the JSON encoder of the client is not in the sources; this
  is the hexadecimal digit it writes in an escape.
\<close>

definition hex_digit :: "nat \<Rightarrow> char" where
  "hex_digit d = ''0123456789abcdef'' ! (d mod 16)"

text \<open>
  Modelled from the spec: the JSON encoder of the client is not in the sources; this
  is one character inside a JSON string, with the quote, the backslash and the
  control characters escaped.
\<close>

definition json_char :: "char \<Rightarrow> string" where
  "json_char ch =
     (if ch = CHR 0x22 then [CHR 0x5C, CHR 0x22]
      else if ch = CHR 0x5C then [CHR 0x5C, CHR 0x5C]
      else if (of_char ch :: nat) < 32
        then [CHR 0x5C, CHR ''u'', CHR ''0'', CHR ''0'',
              hex_digit (of_char ch div 16), hex_digit (of_char ch mod 16)]
      else [ch])"

text \<open>
  Modelled from the spec: the JSON encoder of the client is not in the sources; this
  is the JSON text of a string, wrapped in double quotes.
\<close>

definition json_string :: "string \<Rightarrow> string" where
  "json_string s = CHR 0x22 # concat (map json_char s) @ [CHR 0x22]"

text \<open>
  Modelled from the spec: the JSON text of a body value (the encoder is part of the
  client, which is not in the sources): an object lists the fields in order under
  their tags.
\<close>

fun json :: "goval \<Rightarrow> string"
  and json_fields :: "(string \<times> goval) list \<Rightarrow> string" where
  "json GoNil = ''null''"
| "json (GoString s) = json_string s"
| "json (GoBool b) = (if b then ''true'' else ''false'')"
| "json (GoInt i) = Itoa i"
| "json (GoStruct fs) = ''{'' @ json_fields fs @ ''}''"
| "json_fields [] = ''''"
| "json_fields [(k, v)] = json_string k @ '':'' @ json v"
| "json_fields ((k, v) # f # fs) =
     json_string k @ '':'' @ json v @ '','' @ json_fields (f # fs)"

text \<open>
  Modelled from the spec: the body that the client's \<open>NewRequest\<close>, which is not in
  the sources, gives a request. The specification calls \<open>NewRequest\<close> the
  JSON-request construction (section 6) and lists the one exception, the HA role,
  whose body is the raw string (sections 4.3, 6 and 8): a string body is sent as its
  own bytes, a struct body as its JSON text, and nil gives a request without body.
\<close>

fun request_body :: "goval \<Rightarrow> string option" where
  "request_body GoNil = None"
| "request_body (GoString s) = Some s"
| "request_body v = Some (json v)"

text \<open>
  Modelled from the spec: \<open>NewRequest\<close> of the client, absent from the sources,
  as the JSON-request construction of section 6 with the body rendered by
  \<open>request_body\<close>.
\<close>

definition NewRequest_spec ::
  "string \<Rightarrow> string \<Rightarrow> goval \<Rightarrow> 'w \<Rightarrow> (Request option \<times> error option) \<times> 'w" where
  "NewRequest_spec method url body w =
     ((Some \<lparr>Method = method, URL = url, Body = request_body body\<rparr>, None), w)"

text \<open>
  \<open>answering status\<close>: a stub client whose \<open>NewRequest\<close> is \<open>NewRequest_spec\<close> and
  which has no other builder; \<open>Do\<close> leaves the destination alone and answers with
  \<open>status\<close>.
\<close>

definition answering :: "int \<Rightarrow> (unit, Request, 'v, nat) Client" where
  "answering status =
     \<lparr>NewRequest = NewRequest_spec,
      NewShadowRequest = (\<lambda>method url body w.
        ((None, Some (ClientError ''no shadow builder'')), w)),
      NewUploadRequest = (\<lambda>method url file size mediaType w.
        ((None, Some (ClientError ''no upload builder'')), w)),
      Do = (\<lambda>ctx req dest w. ((dest, Some \<lparr>StatusCode = status\<rparr>, None), Suc w))\<rparr>"

section \<open>Status checks of the operations that require 204\<close>

declare formatBits.simps [simp del]

text \<open>\<open>Itoa\<close> of a number that is not negative reads back as that number.\<close>

lemma digit_value:
  assumes "d < 10"
  shows "(of_char (digit d) :: nat) = 48 + d"
proof -
  from assms consider "d = 0" | "d = 1" | "d = 2" | "d = 3" | "d = 4"
    | "d = 5" | "d = 6" | "d = 7" | "d = 8" | "d = 9"
    by atomize_elim arith
  then show ?thesis
    by cases (simp_all add: digit_def)
qed

lemma decimal_value_snoc: "decimal_value (s @ [ch]) = 10 * decimal_value s + (of_char ch - 48)"
  by (simp add: decimal_value_def)

lemma decimal_value_formatBits: "decimal_value (formatBits u) = u"
proof (induction u rule: formatBits.induct)
  case (1 u)
  show ?case
  proof (cases "u < 10")
    case True
    then show ?thesis
      by (simp add: formatBits.simps [of u] decimal_value_def digit_value)
  next
    case False
    with 1 have "decimal_value (formatBits (u div 10)) = u div 10" by simp
    with False show ?thesis
      by (simp add: formatBits.simps [of u] decimal_value_snoc digit_value)
  qed
qed

lemma Itoa_decimal: "0 \<le> i \<Longrightarrow> int (decimal_value (Itoa i)) = i"
  by (simp add: Itoa_def decimal_value_formatBits)

lemma RestoreBackup_status:
  assumes "Stat file = Inr stat" and "\<not> IsDir stat"
    and "NewUploadRequest c ''PUT'' ''api/v1/configuration/backup'' file (Size stat)
           (TypeByExtension (Ext (Name file))) w = ((req, None), w1)"
    and "Do c ctx req None w1 = ((cell, Some r, None), w2)"
  shows "RestoreBackup TypeByExtension c ctx password file w =
           (Return (Some r,
              if StatusCode r = 204 then None
              else Some (errorString
                     (''backup restore failed with status code '' @ Itoa (StatusCode r)))), w2)"
  using assms by (simp add: RestoreBackup_def)

lemma ResetMaster_status:
  assumes "NewRequest c ''DELETE'' ''api/v1/configuration/connector/ha/master/state'' GoNil w
             = ((req, None), w1)"
    and "Do c ctx req None w1 = ((cell, Some r, None), w2)"
  shows "ResetMaster c ctx w =
           (Return (Some r,
              if StatusCode r = 204 then None
              else Some (errorString
                     (''master reset failed with status code '' @ Itoa (StatusCode r)))), w2)"
  using assms by (simp add: ResetMaster_def)

lemma ResetShadow_status:
  assumes "NewShadowRequest c ''DELETE'' ''api/v1/configuration/connector/ha/shadow/state'' GoNil w
             = ((req, None), w1)"
    and "Do c ctx req None w1 = ((cell, Some r, None), w2)"
  shows "ResetShadow c ctx w =
           (Return (Some r,
              if StatusCode r = 204 then None
              else Some (errorString
                     (''shadow reset failed with status code '' @ Itoa (StatusCode r)))), w2)"
  using assms by (simp add: ResetShadow_def)

lemma ChangeShadowState_status:
  assumes "NewShadowRequest c ''POST'' ''api/v1/configuration/connector/ha/shadow/state''
             (GoStruct [(''op'', GoString op), (''user'', GoString user),
                        (''password'', GoString password)]) w
             = ((req, None), w1)"
    and "Do c ctx req None w1 = ((cell, Some r, None), w2)"
  shows "ChangeShadowState c ctx op user password w =
           (Return (Some r,
              if StatusCode r = 204 then None
              else Some (errorString
                     (''shadow reset failed with status code '' @ Itoa (StatusCode r)))), w2)"
  using assms by (simp add: ChangeShadowState_def)

text \<open>
  C1. For RestoreBackup, ResetMaster, ResetShadow and ChangeShadowState: when the
  request was built and executed and \<open>Do\<close> returned the response \<open>r\<close> with a
  nil error, a status code of exactly 204 gives a nil error, any other status code
  gives the error whose message ends with the decimal rendering of that code (which
  reads back as the code), and in both cases the response \<open>r\<close> itself is returned. The message of
  \<open>ChangeShadowState\<close> speaks of a shadow reset, as the source does.
\<close>

theorem fixed_status_operations:
  "(Stat fl = Inr stat \<and> \<not> IsDir stat
      \<and> NewUploadRequest c ''PUT'' ''api/v1/configuration/backup'' fl (Size stat)
           (TypeByExtension (Ext (Name fl))) w = ((req, None), w1)
      \<and> Do c ctx req None w1 = ((cell, Some r, None), w2)
    \<longrightarrow> (StatusCode r = 204
          \<longrightarrow> RestoreBackup TypeByExtension c ctx pw fl w = (Return (Some r, None), w2))
      \<and> (StatusCode r \<noteq> 204
          \<longrightarrow> RestoreBackup TypeByExtension c ctx pw fl w =
                (Return (Some r, Some (errorString
                  (''backup restore failed with status code '' @ Itoa (StatusCode r)))), w2)))
   \<and> (NewRequest c ''DELETE'' ''api/v1/configuration/connector/ha/master/state'' GoNil w
         = ((req, None), w1)
      \<and> Do c ctx req None w1 = ((cell, Some r, None), w2)
    \<longrightarrow> (StatusCode r = 204 \<longrightarrow> ResetMaster c ctx w = (Return (Some r, None), w2))
      \<and> (StatusCode r \<noteq> 204
          \<longrightarrow> ResetMaster c ctx w =
                (Return (Some r, Some (errorString
                  (''master reset failed with status code '' @ Itoa (StatusCode r)))), w2)))
   \<and> (NewShadowRequest c ''DELETE'' ''api/v1/configuration/connector/ha/shadow/state'' GoNil w
         = ((req, None), w1)
      \<and> Do c ctx req None w1 = ((cell, Some r, None), w2)
    \<longrightarrow> (StatusCode r = 204 \<longrightarrow> ResetShadow c ctx w = (Return (Some r, None), w2))
      \<and> (StatusCode r \<noteq> 204
          \<longrightarrow> ResetShadow c ctx w =
                (Return (Some r, Some (errorString
                  (''shadow reset failed with status code '' @ Itoa (StatusCode r)))), w2)))
   \<and> (NewShadowRequest c ''POST'' ''api/v1/configuration/connector/ha/shadow/state''
         (GoStruct [(''op'', GoString op), (''user'', GoString user),
                    (''password'', GoString password)]) w
         = ((req, None), w1)
      \<and> Do c ctx req None w1 = ((cell, Some r, None), w2)
    \<longrightarrow> (StatusCode r = 204
          \<longrightarrow> ChangeShadowState c ctx op user password w = (Return (Some r, None), w2))
      \<and> (StatusCode r \<noteq> 204
          \<longrightarrow> ChangeShadowState c ctx op user password w =
                (Return (Some r, Some (errorString
                  (''shadow reset failed with status code '' @ Itoa (StatusCode r)))), w2)))
   \<and> sublist (Itoa (StatusCode r)) (Error (errorString (msg @ Itoa (StatusCode r))))
   \<and> (0 \<le> StatusCode r \<longrightarrow> int (decimal_value (Itoa (StatusCode r))) = StatusCode r)"
  by (simp add: RestoreBackup_status ResetMaster_status ResetShadow_status
        ChangeShadowState_status Itoa_decimal)

lemma Itoa_500: "Itoa 500 = ''500''"
  by (simp add: Itoa_def digit_def formatBits.simps)

text \<open>
  The four operations against a stub that answers 204 and against one that answers
  500, on a regular file.
\<close>

theorem fixed_status_operations_witness:
  "RestoreBackup mime_table (serving () 204) () ''secret'' backup_zip 0
     = (Return (Some \<lparr>StatusCode = 204\<rparr>, None), 1)
   \<and> RestoreBackup mime_table (serving () 500) () ''secret'' backup_zip 0
     = (Return (Some \<lparr>StatusCode = 500\<rparr>,
          Some (errorString ''backup restore failed with status code 500'')), 1)
   \<and> ResetMaster (serving () 204) () 0 = (Return (Some \<lparr>StatusCode = 204\<rparr>, None), 1)
   \<and> ResetMaster (serving () 500) () 0
     = (Return (Some \<lparr>StatusCode = 500\<rparr>,
          Some (errorString ''master reset failed with status code 500'')), 1)
   \<and> ResetShadow (serving () 204) () 0 = (Return (Some \<lparr>StatusCode = 204\<rparr>, None), 1)
   \<and> ResetShadow (serving () 500) () 0
     = (Return (Some \<lparr>StatusCode = 500\<rparr>,
          Some (errorString ''shadow reset failed with status code 500'')), 1)
   \<and> ChangeShadowState (serving () 204) () ''CONNECT'' ''admin'' ''secret'' 0
     = (Return (Some \<lparr>StatusCode = 204\<rparr>, None), 1)
   \<and> ChangeShadowState (serving () 500) () ''CONNECT'' ''admin'' ''secret'' 0
     = (Return (Some \<lparr>StatusCode = 500\<rparr>,
          Some (errorString ''shadow reset failed with status code 500'')), 1)
   \<and> sublist ''500'' ''shadow reset failed with status code 500''
   \<and> decimal_value ''500'' = 500"
proof -
  note ok = fixed_status_operations
    [where c = "serving () 204" and ctx = "()" and w = 0 and ?w1.0 = 0 and ?w2.0 = 1
       and r = "\<lparr>StatusCode = 204\<rparr>" and cell = None and fl = backup_zip
       and stat = "\<lparr>IsDir = False, Size = 3\<rparr>" and TypeByExtension = mime_table
       and pw = "''secret''" and op = "''CONNECT''" and user = "''admin''"
       and password = "''secret''" and msg = "''shadow reset failed with status code ''"]
  note bad = fixed_status_operations
    [where c = "serving () 500" and ctx = "()" and w = 0 and ?w1.0 = 0 and ?w2.0 = 1
       and r = "\<lparr>StatusCode = 500\<rparr>" and cell = None and fl = backup_zip
       and stat = "\<lparr>IsDir = False, Size = 3\<rparr>" and TypeByExtension = mime_table
       and pw = "''secret''" and op = "''CONNECT''" and user = "''admin''"
       and password = "''secret''" and msg = "''shadow reset failed with status code ''"]
  show ?thesis
    using ok bad by (simp add: serving_def backup_zip_def Itoa_500)
qed

section \<open>Operations run against the recording client\<close>

text \<open>
  Against \<open>recording c\<close> an operation returns what it returns against \<open>c\<close>, leaves
  the world \<open>c\<close> would leave, and appends to the log the builder it invoked,
  followed by \<open>Do\<close> when the builder returned a nil error.
\<close>

lemma CreateBackup_recording:
  "CreateBackup (recording c) ctx password fl (w, log) =
     (fst (CreateBackup c ctx password fl w),
      snd (CreateBackup c ctx password fl w),
      log @ NewRequestCall ''POST'' ''api/v1/configuration/backup''
              (GoStruct [(''password'', GoString password)])
            # (case NewRequest c ''POST'' ''api/v1/configuration/backup''
                      (GoStruct [(''password'', GoString password)]) w of
                 ((req, err), w1) \<Rightarrow> if err \<noteq> None then [] else [DoCall ctx req (Some fl)]))"
  by (simp add: CreateBackup_def recording_def split: prod.splits option.splits)

lemma GetCommonProperties_recording:
  "GetCommonProperties (recording c) ctx (w, log) =
     (fst (GetCommonProperties c ctx w),
      snd (GetCommonProperties c ctx w),
      log @ NewRequestCall ''GET'' ''api/v1/configuration/connector''
              GoNil
            # (case NewRequest c ''GET'' ''api/v1/configuration/connector''
                      GoNil w of
                 ((req, err), w1) \<Rightarrow> if err \<noteq> None then [] else [DoCall ctx req (Some new_CommonProperties)]))"
  by (simp add: GetCommonProperties_def recording_def split: prod.splits option.splits)

lemma GetVersion_recording:
  "GetVersion (recording c) ctx (w, log) =
     (fst (GetVersion c ctx w),
      snd (GetVersion c ctx w),
      log @ NewRequestCall ''GET'' ''api/v1/connector/version''
              GoNil
            # (case NewRequest c ''GET'' ''api/v1/connector/version''
                      GoNil w of
                 ((req, err), w1) \<Rightarrow> if err \<noteq> None then [] else [DoCall ctx req (Some new_Version)]))"
  by (simp add: GetVersion_def recording_def split: prod.splits option.splits)

lemma SetDescription_recording:
  "SetDescription (recording c) ctx description (w, log) =
     (fst (SetDescription c ctx description w),
      snd (SetDescription c ctx description w),
      log @ NewRequestCall ''PUT'' ''api/v1/configuration/connector''
              (GoStruct [(''description'', GoString description)])
            # (case NewRequest c ''PUT'' ''api/v1/configuration/connector''
                      (GoStruct [(''description'', GoString description)]) w of
                 ((req, err), w1) \<Rightarrow> if err \<noteq> None then [] else [DoCall ctx req (Some new_CommonProperties)]))"
  by (simp add: SetDescription_def recording_def split: prod.splits option.splits)

lemma GetHASettings_recording:
  "GetHASettings (recording c) ctx (w, log) =
     (fst (GetHASettings c ctx w),
      snd (GetHASettings c ctx w),
      log @ NewRequestCall ''GET'' ''api/v1/configuration/connector/haRole''
              GoNil
            # (case NewRequest c ''GET'' ''api/v1/configuration/connector/haRole''
                      GoNil w of
                 ((req, err), w1) \<Rightarrow> if err \<noteq> None then [] else [DoCall ctx req (Some '''')]))"
  by (simp add: GetHASettings_def recording_def split: prod.splits option.splits)

lemma SetHASettings_recording:
  "SetHASettings (recording c) ctx role (w, log) =
     (fst (SetHASettings c ctx role w),
      snd (SetHASettings c ctx role w),
      log @ NewRequestCall ''POST'' ''api/v1/configuration/connector/haRole''
              (GoString role)
            # (case NewRequest c ''POST'' ''api/v1/configuration/connector/haRole''
                      (GoString role) w of
                 ((req, err), w1) \<Rightarrow> if err \<noteq> None then [] else [DoCall ctx req None]))"
  by (simp add: SetHASettings_def recording_def split: prod.splits option.splits)

lemma GetMasterConfiguration_recording:
  "GetMasterConfiguration (recording c) ctx (w, log) =
     (fst (GetMasterConfiguration c ctx w),
      snd (GetMasterConfiguration c ctx w),
      log @ NewRequestCall ''GET'' ''api/v1/configuration/connector/ha/master/config''
              GoNil
            # (case NewRequest c ''GET'' ''api/v1/configuration/connector/ha/master/config''
                      GoNil w of
                 ((req, err), w1) \<Rightarrow> if err \<noteq> None then [] else [DoCall ctx req (Some new_MasterConfiguration)]))"
  by (simp add: GetMasterConfiguration_def recording_def split: prod.splits option.splits)

lemma SetMasterConfiguration_recording:
  "SetMasterConfiguration (recording c) ctx haEnabled allowedShadowHost (w, log) =
     (fst (SetMasterConfiguration c ctx haEnabled allowedShadowHost w),
      snd (SetMasterConfiguration c ctx haEnabled allowedShadowHost w),
      log @ NewRequestCall ''PUT'' ''api/v1/configuration/connector/ha/master/config''
              (MasterConfiguration_value \<lparr>HAEnabled = haEnabled, AllowedShadowHost = allowedShadowHost\<rparr>)
            # (case NewRequest c ''PUT'' ''api/v1/configuration/connector/ha/master/config''
                      (MasterConfiguration_value \<lparr>HAEnabled = haEnabled, AllowedShadowHost = allowedShadowHost\<rparr>) w of
                 ((req, err), w1) \<Rightarrow> if err \<noteq> None then [] else [DoCall ctx req (Some new_MasterConfiguration)]))"
  by (simp add: SetMasterConfiguration_def recording_def split: prod.splits option.splits)

lemma GetMasterState_recording:
  "GetMasterState (recording c) ctx (w, log) =
     (fst (GetMasterState c ctx w),
      snd (GetMasterState c ctx w),
      log @ NewRequestCall ''GET'' ''api/v1/configuration/connector/ha/master/state''
              GoNil
            # (case NewRequest c ''GET'' ''api/v1/configuration/connector/ha/master/state''
                      GoNil w of
                 ((req, err), w1) \<Rightarrow> if err \<noteq> None then [] else [DoCall ctx req (Some new_MasterState)]))"
  by (simp add: GetMasterState_def recording_def split: prod.splits option.splits)

lemma SetMasterState_recording:
  "SetMasterState (recording c) ctx op (w, log) =
     (fst (SetMasterState c ctx op w),
      snd (SetMasterState c ctx op w),
      log @ NewRequestCall ''POST'' ''api/v1/configuration/connector/ha/master/state''
              (GoStruct [(''op'', GoString op)])
            # (case NewRequest c ''POST'' ''api/v1/configuration/connector/ha/master/state''
                      (GoStruct [(''op'', GoString op)]) w of
                 ((req, err), w1) \<Rightarrow> if err \<noteq> None then [] else [DoCall ctx req (Some new_MasterState)]))"
  by (simp add: SetMasterState_def recording_def split: prod.splits option.splits)

lemma ResetMaster_recording:
  "ResetMaster (recording c) ctx (w, log) =
     (fst (ResetMaster c ctx w),
      snd (ResetMaster c ctx w),
      log @ NewRequestCall ''DELETE'' ''api/v1/configuration/connector/ha/master/state''
              GoNil
            # (case NewRequest c ''DELETE'' ''api/v1/configuration/connector/ha/master/state''
                      GoNil w of
                 ((req, err), w1) \<Rightarrow> if err \<noteq> None then [] else [DoCall ctx req None]))"
  by (simp add: ResetMaster_def recording_def split: prod.splits option.splits)

lemma GetShadowConfiguration_recording:
  "GetShadowConfiguration (recording c) ctx (w, log) =
     (fst (GetShadowConfiguration c ctx w),
      snd (GetShadowConfiguration c ctx w),
      log @ NewShadowRequestCall ''GET'' ''api/v1/configuration/connector/ha/shadow/config''
              GoNil
            # (case NewShadowRequest c ''GET'' ''api/v1/configuration/connector/ha/shadow/config''
                      GoNil w of
                 ((req, err), w1) \<Rightarrow> if err \<noteq> None then [] else [DoCall ctx req (Some new_ShadowConfiguration)]))"
  by (simp add: GetShadowConfiguration_def recording_def split: prod.splits option.splits)

lemma SetShadowConfiguration_recording:
  "SetShadowConfiguration (recording c) ctx masterHost masterPort ownHost checkInterval takeoverDelay connectTimeout requestTimeout (w, log) =
     (fst (SetShadowConfiguration c ctx masterHost masterPort ownHost checkInterval takeoverDelay connectTimeout requestTimeout w),
      snd (SetShadowConfiguration c ctx masterHost masterPort ownHost checkInterval takeoverDelay connectTimeout requestTimeout w),
      log @ NewShadowRequestCall ''PUT'' ''api/v1/configuration/connector/ha/shadow/config''
              (ShadowConfiguration_value (new_ShadowConfiguration \<lparr>MasterHost := masterHost, MasterPort := masterPort, CheckIntervalInSeconds := checkInterval, TakeoverDelayInSeconds := takeoverDelay, OwnHost := ownHost, ConnectTimeoutInMillis := connectTimeout, RequestTimeoutInMillis := requestTimeout\<rparr>))
            # (case NewShadowRequest c ''PUT'' ''api/v1/configuration/connector/ha/shadow/config''
                      (ShadowConfiguration_value (new_ShadowConfiguration \<lparr>MasterHost := masterHost, MasterPort := masterPort, CheckIntervalInSeconds := checkInterval, TakeoverDelayInSeconds := takeoverDelay, OwnHost := ownHost, ConnectTimeoutInMillis := connectTimeout, RequestTimeoutInMillis := requestTimeout\<rparr>)) w of
                 ((req, err), w1) \<Rightarrow> if err \<noteq> None then [] else [DoCall ctx req (Some new_ShadowConfiguration)]))"
  by (simp add: SetShadowConfiguration_def recording_def split: prod.splits option.splits)

lemma GetShawodState_recording:
  "GetShawodState (recording c) ctx description (w, log) =
     (fst (GetShawodState c ctx description w),
      snd (GetShawodState c ctx description w),
      log @ NewShadowRequestCall ''GET'' ''api/v1/configuration/connector/ha/shadow/state''
              GoNil
            # (case NewShadowRequest c ''GET'' ''api/v1/configuration/connector/ha/shadow/state''
                      GoNil w of
                 ((req, err), w1) \<Rightarrow> if err \<noteq> None then [] else [DoCall ctx req (Some new_ShadowState)]))"
  by (simp add: GetShawodState_def recording_def split: prod.splits option.splits)

lemma ChangeShadowState_recording:
  "ChangeShadowState (recording c) ctx op user password (w, log) =
     (fst (ChangeShadowState c ctx op user password w),
      snd (ChangeShadowState c ctx op user password w),
      log @ NewShadowRequestCall ''POST'' ''api/v1/configuration/connector/ha/shadow/state''
              (GoStruct [(''op'', GoString op), (''user'', GoString user), (''password'', GoString password)])
            # (case NewShadowRequest c ''POST'' ''api/v1/configuration/connector/ha/shadow/state''
                      (GoStruct [(''op'', GoString op), (''user'', GoString user), (''password'', GoString password)]) w of
                 ((req, err), w1) \<Rightarrow> if err \<noteq> None then [] else [DoCall ctx req None]))"
  by (simp add: ChangeShadowState_def recording_def split: prod.splits option.splits)

lemma ResetShadow_recording:
  "ResetShadow (recording c) ctx (w, log) =
     (fst (ResetShadow c ctx w),
      snd (ResetShadow c ctx w),
      log @ NewShadowRequestCall ''DELETE'' ''api/v1/configuration/connector/ha/shadow/state''
              GoNil
            # (case NewShadowRequest c ''DELETE'' ''api/v1/configuration/connector/ha/shadow/state''
                      GoNil w of
                 ((req, err), w1) \<Rightarrow> if err \<noteq> None then [] else [DoCall ctx req None]))"
  by (simp add: ResetShadow_def recording_def split: prod.splits option.splits)

lemma RestoreBackup_recording:
  "RestoreBackup TypeByExtension (recording c) ctx password fl (w, log) =
     (fst (RestoreBackup TypeByExtension c ctx password fl w),
      snd (RestoreBackup TypeByExtension c ctx password fl w),
      log @ (case Stat fl of
               Inl err \<Rightarrow> []
             | Inr stat \<Rightarrow>
                 if IsDir stat then []
                 else NewUploadRequestCall ''PUT'' ''api/v1/configuration/backup'' fl (Size stat)
                        (TypeByExtension (Ext (Name fl)))
                      # (case NewUploadRequest c ''PUT'' ''api/v1/configuration/backup'' fl
                                (Size stat) (TypeByExtension (Ext (Name fl))) w of
                           ((req, err), w1) \<Rightarrow>
                             if err \<noteq> None then [] else [DoCall ctx req None])))"
  by (simp add: RestoreBackup_def recording_def split: prod.splits option.splits sum.splits)

section \<open>Restoring a backup: the password and the directory check\<close>

text \<open>
  C3. \<open>RestoreBackup\<close> never reads its password: run with two passwords on the
  same file, client and world, it returns the same results and leaves the same
  world. That holds for the recording client too, so the methods invoked and their
  arguments are the same; and on a regular file the upload request is built from the
  file, the size its stat reports and the content type of its extension.
\<close>

theorem RestoreBackup_password_not_transmitted:
  "RestoreBackup TypeByExtension c ctx p1 fl w = RestoreBackup TypeByExtension c ctx p2 fl w
   \<and> RestoreBackup TypeByExtension (recording c) ctx p1 fl (w, log)
       = RestoreBackup TypeByExtension (recording c) ctx p2 fl (w, log)
   \<and> (Stat fl = Inr stat \<and> \<not> IsDir stat
        \<longrightarrow> take 1 (snd (snd (RestoreBackup TypeByExtension (recording c) ctx p1 fl (w, []))))
            = [NewUploadRequestCall ''PUT'' ''api/v1/configuration/backup'' fl (Size stat)
                 (TypeByExtension (Ext (Name fl)))])"
  by (simp add: RestoreBackup_recording) (simp add: RestoreBackup_def)

text \<open>
  Two passwords, one archive: the same upload of \<open>/tmp/backup.zip\<close>, three bytes
  long, as \<open>application/zip\<close>.
\<close>

theorem RestoreBackup_password_not_transmitted_witness:
  "RestoreBackup mime_table (serving () 204) () ''secret'' backup_zip 0
     = RestoreBackup mime_table (serving () 204) () ''other'' backup_zip 0
   \<and> take 1 (snd (snd (RestoreBackup mime_table (recording (serving () 204)) ()
                         ''secret'' backup_zip (0, []))))
     = [NewUploadRequestCall ''PUT'' ''api/v1/configuration/backup'' backup_zip 3
          ''application/zip'']"
proof -
  have ext: "Ext (Name backup_zip) = ''.zip''"
    by (simp add: backup_zip_def Ext_def)
  have st: "Stat backup_zip = Inr \<lparr>IsDir = False, Size = 3\<rparr>"
    by (simp add: backup_zip_def)
  note same = RestoreBackup_password_not_transmitted
    [where c = "serving () 204" and ctx = "()" and w = 0 and fl = backup_zip
       and stat = "\<lparr>IsDir = False, Size = 3\<rparr>" and TypeByExtension = mime_table
       and ?p1.0 = "''secret''" and ?p2.0 = "''other''" and log = "[]"]
  have results: "RestoreBackup mime_table (serving () 204) () ''secret'' backup_zip 0
                   = RestoreBackup mime_table (serving () 204) () ''other'' backup_zip 0"
    by (rule same [THEN conjunct1])
  have request: "take 1 (snd (snd (RestoreBackup mime_table (recording (serving () 204)) ()
                                     ''secret'' backup_zip (0, []))))
                   = [NewUploadRequestCall ''PUT'' ''api/v1/configuration/backup'' backup_zip 3
                        ''application/zip'']"
    using same [THEN conjunct2, THEN conjunct2] st by (simp add: ext mime_table_def)
  show ?thesis
    using results request by (rule conjI)
qed

text \<open>
  C4. When the stat of the file reports a directory, \<open>RestoreBackup\<close> returns a nil
  response and the error "the asset to upload can't be a directory", and invokes no
  method of the client: the world is the one it started in, and the recording client
  has logged nothing.
\<close>

theorem RestoreBackup_directory:
  assumes "Stat fl = Inr stat" and "IsDir stat"
  shows "RestoreBackup TypeByExtension c ctx password fl w =
           (Return (None, Some (errorString ''the asset to upload can't be a directory'')), w)
         \<and> RestoreBackup TypeByExtension (recording c) ctx password fl (w, log) =
           (Return (None, Some (errorString ''the asset to upload can't be a directory'')),
            w, log)"
  using assms by (simp add: RestoreBackup_recording) (simp add: RestoreBackup_def)

text \<open>Restoring from \<open>/tmp\<close>, a directory: no request is executed, nothing is logged.\<close>

theorem RestoreBackup_directory_witness:
  "RestoreBackup mime_table (serving () 204) () ''secret'' tmp_dir 0 =
     (Return (None, Some (errorString ''the asset to upload can't be a directory'')), 0)
   \<and> RestoreBackup mime_table (recording (serving () 204)) () ''secret'' tmp_dir (0, []) =
     (Return (None, Some (errorString ''the asset to upload can't be a directory'')), 0, [])"
proof -
  have st: "Stat tmp_dir = Inr \<lparr>IsDir = True, Size = 4096\<rparr>"
    by (simp add: tmp_dir_def)
  have dir: "IsDir \<lparr>IsDir = True, Size = 4096\<rparr>"
    by simp
  show ?thesis
    using RestoreBackup_directory [OF st dir, of mime_table "serving () 204" "()" "''secret''" 0 "[]"]
    by simp
qed

text \<open>
  C9. \<open>CreateBackup\<close> does not look at the status code: when the request was built
  and \<open>Do\<close> returned a nil error, it returns whatever response \<open>Do\<close> returned, with a
  nil error.
\<close>

theorem CreateBackup_no_status_check:
  assumes "NewRequest c ''POST'' ''api/v1/configuration/backup''
             (GoStruct [(''password'', GoString password)]) w = ((req, None), w1)"
    and "Do c ctx req (Some fl) w1 = ((cell, resp, None), w2)"
  shows "CreateBackup c ctx password fl w = ((resp, None), w2)"
  using assms by (simp add: CreateBackup_def)

text \<open>A server answering 500 and one answering 404: both are returned without error.\<close>

theorem CreateBackup_no_status_check_witness:
  "CreateBackup (serving backup_zip 500) () ''secret'' backup_zip 0
     = ((Some \<lparr>StatusCode = 500\<rparr>, None), 1)
   \<and> CreateBackup (serving backup_zip 404) () ''secret'' backup_zip 0
     = ((Some \<lparr>StatusCode = 404\<rparr>, None), 1)"
proof -
  have "CreateBackup (serving backup_zip s) () ''secret'' backup_zip 0
          = ((Some \<lparr>StatusCode = s\<rparr>, None), 1)" for s
    by (rule CreateBackup_no_status_check
          [where req = "Some (Plain ''POST'' ''api/v1/configuration/backup''
                                (GoStruct [(''password'', GoString ''secret'')]))"
             and ?w1.0 = 0 and cell = "Some backup_zip"])
       (simp_all add: serving_def)
  then show ?thesis by simp
qed

section \<open>Shadow operations and their request builder\<close>

text \<open>
  C5. Each of the five shadow operations (GetShadowConfiguration,
  SetShadowConfiguration, GetShawodState, ChangeShadowState, ResetShadow), run against
  the recording client, invokes exactly one request builder, and that one is
  \<open>NewShadowRequest\<close>; no call of \<open>NewRequest\<close> is logged, whatever its arguments.
\<close>

theorem shadow_operations_use_NewShadowRequest:
  "filter is_builder (snd (snd (GetShadowConfiguration (recording cc) ctx (w, []))))
     = [NewShadowRequestCall ''GET'' ''api/v1/configuration/connector/ha/shadow/config'' GoNil]
   \<and> NewRequestCall m u b \<notin> set (snd (snd (GetShadowConfiguration (recording cc) ctx (w, []))))
   \<and> filter is_builder
         (snd (snd (SetShadowConfiguration (recording cc) ctx masterHost masterPort ownHost
                      checkInterval takeoverDelay connectTimeout requestTimeout (w, []))))
     = [NewShadowRequestCall ''PUT'' ''api/v1/configuration/connector/ha/shadow/config''
          (ShadowConfiguration_value
             \<lparr>MasterHost = masterHost, MasterPort = masterPort,
              CheckIntervalInSeconds = checkInterval, TakeoverDelayInSeconds = takeoverDelay,
              OwnHost = ownHost, ConnectTimeoutInMillis = connectTimeout,
              RequestTimeoutInMillis = requestTimeout,
              Links = \<lparr>Self = \<lparr>Href = ''''\<rparr>,
                       ShadowConfiguration_Links.State = \<lparr>Href = ''''\<rparr>\<rparr>\<rparr>)]
   \<and> NewRequestCall m u b
       \<notin> set (snd (snd (SetShadowConfiguration (recording cc) ctx masterHost masterPort ownHost
                          checkInterval takeoverDelay connectTimeout requestTimeout (w, []))))
   \<and> filter is_builder (snd (snd (GetShawodState (recording cs) ctx description (w, []))))
     = [NewShadowRequestCall ''GET'' ''api/v1/configuration/connector/ha/shadow/state'' GoNil]
   \<and> NewRequestCall m u b
       \<notin> set (snd (snd (GetShawodState (recording cs) ctx description (w, []))))
   \<and> filter is_builder
         (snd (snd (ChangeShadowState (recording c) ctx op user password (w, []))))
     = [NewShadowRequestCall ''POST'' ''api/v1/configuration/connector/ha/shadow/state''
          (GoStruct [(''op'', GoString op), (''user'', GoString user),
                     (''password'', GoString password)])]
   \<and> NewRequestCall m u b
       \<notin> set (snd (snd (ChangeShadowState (recording c) ctx op user password (w, []))))
   \<and> filter is_builder (snd (snd (ResetShadow (recording c) ctx (w, []))))
     = [NewShadowRequestCall ''DELETE'' ''api/v1/configuration/connector/ha/shadow/state'' GoNil]
   \<and> NewRequestCall m u b \<notin> set (snd (snd (ResetShadow (recording c) ctx (w, []))))"
  by (simp add: GetShadowConfiguration_recording SetShadowConfiguration_recording
        GetShawodState_recording ChangeShadowState_recording ResetShadow_recording
        new_ShadowConfiguration_def split: prod.splits)

text \<open>
  The five operations against a stub whose builders all succeed: the log holds the
  shadow builder and then \<open>Do\<close> with the request that builder made.
\<close>

theorem shadow_operations_use_NewShadowRequest_witness:
  "snd (snd (GetShadowConfiguration (recording (serving new_ShadowConfiguration 200)) ()
               (0, [])))
     = [NewShadowRequestCall ''GET'' ''api/v1/configuration/connector/ha/shadow/config'' GoNil,
        DoCall () (Some (Shadow ''GET'' ''api/v1/configuration/connector/ha/shadow/config''
                           GoNil))
          (Some new_ShadowConfiguration)]
   \<and> filter is_builder
         (snd (snd (GetShawodState (recording (serving new_ShadowState 200)) () ''unused''
                      (0, []))))
     = [NewShadowRequestCall ''GET'' ''api/v1/configuration/connector/ha/shadow/state'' GoNil]
   \<and> filter is_builder
         (snd (snd (ChangeShadowState (recording (serving () 204)) () ''CONNECT'' ''admin''
                      ''secret'' (0, []))))
     = [NewShadowRequestCall ''POST'' ''api/v1/configuration/connector/ha/shadow/state''
          (GoStruct [(''op'', GoString ''CONNECT''), (''user'', GoString ''admin''),
                     (''password'', GoString ''secret'')])]
   \<and> filter is_builder (snd (snd (ResetShadow (recording (serving () 204)) () (0, []))))
     = [NewShadowRequestCall ''DELETE'' ''api/v1/configuration/connector/ha/shadow/state''
          GoNil]"
proof -
  note builders = shadow_operations_use_NewShadowRequest
    [where cc = "serving new_ShadowConfiguration 200" and cs = "serving new_ShadowState 200"
       and c = "serving () 204" and ctx = "()" and w = 0 and description = "''unused''"
       and op = "''CONNECT''" and user = "''admin''" and password = "''secret''"]
  have full: "snd (snd (GetShadowConfiguration (recording (serving new_ShadowConfiguration 200))
                          () (0, [])))
                = [NewShadowRequestCall ''GET''
                     ''api/v1/configuration/connector/ha/shadow/config'' GoNil,
                   DoCall () (Some (Shadow ''GET''
                                ''api/v1/configuration/connector/ha/shadow/config'' GoNil))
                     (Some new_ShadowConfiguration)]"
    by (simp add: GetShadowConfiguration_recording serving_def)
  show ?thesis
    using builders full by simp
qed

section \<open>The HA role\<close>

text \<open>
  C6. \<open>GetHASettings\<close> returns as the role the bytes that \<open>Do\<close> left in the buffer,
  unchanged: when the request was built and \<open>Do\<close> wrote the body \<open>body\<close> into the
  empty buffer and returned a nil error, the string returned is \<open>body\<close>.
\<close>

theorem GetHASettings_raw_body:
  assumes "NewRequest c ''GET'' ''api/v1/configuration/connector/haRole'' GoNil w
             = ((req, None), w1)"
    and "Do c ctx req (Some '''') w1 = ((Some body, resp, None), w2)"
  shows "GetHASettings c ctx w = ((body, resp, None), w2)"
  using assms by (simp add: GetHASettings_def)

text \<open>
  A server whose body is the seven bytes \<open>"shadow\<close> with a stray quote: they come
  back as they are, no JSON decoding is attempted.
\<close>

theorem GetHASettings_raw_body_witness:
  "GetHASettings (serving (CHR 0x22 # ''shadow'') 200) () 0
     = ((CHR 0x22 # ''shadow'', Some \<lparr>StatusCode = 200\<rparr>, None), 1)"
  by (rule GetHASettings_raw_body
        [where req = "Some (Plain ''GET'' ''api/v1/configuration/connector/haRole'' GoNil)"
           and ?w1.0 = 0])
     (simp_all add: serving_def)

section \<open>Description and master configuration\<close>

text \<open>
  C7. \<open>SetDescription d\<close> invokes \<open>NewRequest\<close> with the method PUT and, as the JSON
  body, the struct whose single field, tagged \<open>description\<close>, holds \<open>d\<close>; and when
  the request was built and \<open>Do\<close> decoded \<open>props\<close> into the fresh CommonProperties and
  returned a nil error, \<open>SetDescription\<close> returns \<open>props\<close>, so its Description is the
  one the server sent.
\<close>

theorem SetDescription_body_and_result:
  "take 1 (snd (snd (SetDescription (recording c) ctx d (w, []))))
     = [NewRequestCall ''PUT'' ''api/v1/configuration/connector''
          (GoStruct [(''description'', GoString d)])]
   \<and> (NewRequest c ''PUT'' ''api/v1/configuration/connector''
         (GoStruct [(''description'', GoString d)]) w = ((req, None), w1)
       \<and> Do c ctx req (Some new_CommonProperties) w1 = ((Some props, resp, None), w2)
       \<longrightarrow> SetDescription c ctx d w = ((Some props, resp, None), w2)
           \<and> map_option Description (fst (fst (SetDescription c ctx d w)))
               = Some (Description props))"
  by (simp add: SetDescription_recording) (simp add: SetDescription_def)

text \<open>
  A server that answers with the role master and the description "edge": that is
  what \<open>SetDescription\<close> returns, whatever description was sent.
\<close>

theorem SetDescription_body_and_result_witness:
  "take 1 (snd (snd (SetDescription
                       (recording (serving \<lparr>Ha = \<lparr>Role = ''master''\<rparr>, Description = ''edge''\<rparr>
                                     200)) () ''x'' (0, []))))
     = [NewRequestCall ''PUT'' ''api/v1/configuration/connector''
          (GoStruct [(''description'', GoString ''x'')])]
   \<and> SetDescription (serving \<lparr>Ha = \<lparr>Role = ''master''\<rparr>, Description = ''edge''\<rparr> 200) ()
         ''x'' 0
     = ((Some \<lparr>Ha = \<lparr>Role = ''master''\<rparr>, Description = ''edge''\<rparr>,
         Some \<lparr>StatusCode = 200\<rparr>, None), 1)"
proof -
  note sent = SetDescription_body_and_result
    [where c = "serving \<lparr>Ha = \<lparr>Role = ''master''\<rparr>, Description = ''edge''\<rparr> 200"
       and ctx = "()" and d = "''x''" and w = 0 and ?w1.0 = 0 and ?w2.0 = 1
       and req = "Some (Plain ''PUT'' ''api/v1/configuration/connector''
                          (GoStruct [(''description'', GoString ''x'')]))"
       and props = "\<lparr>Ha = \<lparr>Role = ''master''\<rparr>, Description = ''edge''\<rparr>"
       and resp = "Some \<lparr>StatusCode = 200\<rparr>"]
  show ?thesis
    using sent by (simp add: serving_def)
qed

text \<open>
  The echoing server answers with its configuration only a \<open>GET\<close> or \<open>PUT\<close> that
  \<open>NewRequest\<close> built for the path of the master configuration: any other request
  is refused, the destination and the stored configuration staying as they were.
\<close>

lemma echo_refuses_other_paths:
  assumes "url \<noteq> ''api/v1/configuration/connector/ha/master/config''"
  shows "Do echo ctx (Some (Plain method url body)) dest stored =
           ((dest, Some \<lparr>StatusCode = 404\<rparr>, Some (ClientError ''not found'')), stored)"
  using assms by (simp add: echo_def)

lemma echo_refuses_other_methods:
  assumes "method \<noteq> ''GET''" and "method \<noteq> ''PUT''"
  shows "Do echo ctx
           (Some (Plain method ''api/v1/configuration/connector/ha/master/config'' body))
           dest stored =
           ((dest, Some \<lparr>StatusCode = 405\<rparr>, Some (ClientError ''method not allowed'')),
            stored)"
  using assms by (simp add: echo_def)

lemma echo_refuses_other_builders:
  "Do echo ctx (Some (Shadow method url body)) dest stored =
     ((dest, Some \<lparr>StatusCode = 403\<rparr>, Some (ClientError ''forbidden'')), stored)"
  "Do echo ctx (Some (Upload method url fl n mediaType)) dest stored =
     ((dest, Some \<lparr>StatusCode = 404\<rparr>, Some (ClientError ''not found'')), stored)"
  "Do echo ctx None dest stored = ((dest, None, Some (ClientError ''nil request'')), stored)"
  by (simp_all add: echo_def)

lemma echo_GET_reads_stored:
  "Do echo ctx (Some (Plain ''GET'' ''api/v1/configuration/connector/ha/master/config'' body))
     (Some old) stored
     = ((Some stored, Some \<lparr>StatusCode = 200\<rparr>, None), stored)"
  by (simp add: echo_def)

lemma echo_PUT_stores_body:
  "Do echo ctx
     (Some (Plain ''PUT'' ''api/v1/configuration/connector/ha/master/config''
              (GoStruct [(''haEnabled'', GoBool b), (''allowedShadowHost'', GoString h)])))
     (Some old) stored
     = ((Some \<lparr>HAEnabled = b, AllowedShadowHost = h\<rparr>, Some \<lparr>StatusCode = 200\<rparr>, None),
        \<lparr>HAEnabled = b, AllowedShadowHost = h\<rparr>)"
  by (simp add: echo_def)

text \<open>
  C8. \<open>SetMasterConfiguration b h\<close> invokes \<open>NewRequest\<close> with the method PUT, the
  path of the master configuration and the MasterConfiguration whose haEnabled is
  \<open>b\<close> and whose allowedShadowHost is \<open>h\<close>, and \<open>GetMasterConfiguration\<close> invokes
  \<open>NewRequest\<close> with GET, the same path and no body. Against the echoing server,
  whatever it stored before, the server then stores these two fields, and a
  following \<open>GetMasterConfiguration\<close> reads them back: its log is the GET request for
  that resource, executed into a fresh MasterConfiguration, and it returns \<open>b\<close> and
  \<open>h\<close>. A read that is not preceded by the write returns what the server stored
  before.
\<close>

theorem MasterConfiguration_round_trip:
  "take 1 (snd (snd (SetMasterConfiguration (recording c) ctx b h (w, []))))
     = [NewRequestCall ''PUT'' ''api/v1/configuration/connector/ha/master/config''
          (GoStruct [(''haEnabled'', GoBool b), (''allowedShadowHost'', GoString h)])]
   \<and> take 1 (snd (snd (GetMasterConfiguration (recording c) ctx (w, []))))
     = [NewRequestCall ''GET'' ''api/v1/configuration/connector/ha/master/config'' GoNil]
   \<and> SetMasterConfiguration echo () b h stored
     = ((Some \<lparr>HAEnabled = b, AllowedShadowHost = h\<rparr>, Some \<lparr>StatusCode = 200\<rparr>, None),
        \<lparr>HAEnabled = b, AllowedShadowHost = h\<rparr>)
   \<and> GetMasterConfiguration echo () (snd (SetMasterConfiguration echo () b h stored))
     = ((Some \<lparr>HAEnabled = b, AllowedShadowHost = h\<rparr>, Some \<lparr>StatusCode = 200\<rparr>, None),
        \<lparr>HAEnabled = b, AllowedShadowHost = h\<rparr>)
   \<and> GetMasterConfiguration (recording echo) ()
         (snd (SetMasterConfiguration echo () b h stored), [])
     = ((Some \<lparr>HAEnabled = b, AllowedShadowHost = h\<rparr>, Some \<lparr>StatusCode = 200\<rparr>, None),
        \<lparr>HAEnabled = b, AllowedShadowHost = h\<rparr>,
        [NewRequestCall ''GET'' ''api/v1/configuration/connector/ha/master/config'' GoNil,
         DoCall ()
           (Some (Plain ''GET'' ''api/v1/configuration/connector/ha/master/config'' GoNil))
           (Some new_MasterConfiguration)])
   \<and> GetMasterConfiguration echo () stored
     = ((Some stored, Some \<lparr>StatusCode = 200\<rparr>, None), stored)"
proof -
  have put: "SetMasterConfiguration echo () b h stored
     = ((Some \<lparr>HAEnabled = b, AllowedShadowHost = h\<rparr>, Some \<lparr>StatusCode = 200\<rparr>, None),
        \<lparr>HAEnabled = b, AllowedShadowHost = h\<rparr>)"
    by (simp add: SetMasterConfiguration_def echo_def MasterConfiguration_value_def)
  have get: "GetMasterConfiguration echo () s = ((Some s, Some \<lparr>StatusCode = 200\<rparr>, None), s)"
    for s
    by (simp add: GetMasterConfiguration_def echo_def)
  have builder: "NewRequest echo ''GET'' ''api/v1/configuration/connector/ha/master/config''
                   GoNil s
                 = ((Some (Plain ''GET'' ''api/v1/configuration/connector/ha/master/config''
                             GoNil), None), s)" for s
    by (simp add: echo_def)
  show ?thesis
    by (simp add: SetMasterConfiguration_recording GetMasterConfiguration_recording
          MasterConfiguration_value_def put get builder)
qed

text \<open>
  Setting haEnabled and the host "h" on a server that held the zero configuration,
  then reading it back; before the write the read returns the zero configuration.
\<close>

theorem MasterConfiguration_round_trip_witness:
  "GetMasterConfiguration echo ()
     (snd (SetMasterConfiguration echo () True ''h'' new_MasterConfiguration))
     = ((Some \<lparr>HAEnabled = True, AllowedShadowHost = ''h''\<rparr>, Some \<lparr>StatusCode = 200\<rparr>, None),
        \<lparr>HAEnabled = True, AllowedShadowHost = ''h''\<rparr>)
   \<and> GetMasterConfiguration echo () new_MasterConfiguration
     = ((Some new_MasterConfiguration, Some \<lparr>StatusCode = 200\<rparr>, None),
        new_MasterConfiguration)"
proof -
  note trip = MasterConfiguration_round_trip
    [where b = True and h = "''h''" and stored = new_MasterConfiguration]
  have after: "GetMasterConfiguration echo ()
                 (snd (SetMasterConfiguration echo () True ''h'' new_MasterConfiguration))
               = ((Some \<lparr>HAEnabled = True, AllowedShadowHost = ''h''\<rparr>,
                   Some \<lparr>StatusCode = 200\<rparr>, None),
                  \<lparr>HAEnabled = True, AllowedShadowHost = ''h''\<rparr>)"
    by (rule trip [THEN conjunct2, THEN conjunct2, THEN conjunct2, THEN conjunct1])
  have before: "GetMasterConfiguration echo () new_MasterConfiguration
                = ((Some new_MasterConfiguration, Some \<lparr>StatusCode = 200\<rparr>, None),
                   new_MasterConfiguration)"
    by (rule trip [THEN conjunct2, THEN conjunct2, THEN conjunct2, THEN conjunct2,
                   THEN conjunct2])
  show ?thesis
    using after before by (rule conjI)
qed

section \<open>The body of the role request\<close>

lemma json_char_length: "1 \<le> length (json_char ch)"
  by (simp add: json_char_def)

lemma json_escape_length: "length s \<le> length (concat (map json_char s))"
proof (induction s)
  case Nil
  show ?case by simp
next
  case (Cons ch s)
  have "1 \<le> length (json_char ch)"
    by (rule json_char_length)
  with Cons show ?case by simp
qed

lemma json_string_longer: "length s + 2 \<le> length (json_string s)"
  using json_escape_length [of s] by (simp add: json_string_def)

lemma json_string_differs: "json_string s \<noteq> s"
proof
  assume "json_string s = s"
  then have "length (json_string s) = length s" by simp
  with json_string_longer [of s] show False by simp
qed

text \<open>
  C2. \<open>SetHASettings role\<close> hands \<open>NewRequest\<close> the method POST and the Go string
  \<open>role\<close> itself as the body, not a struct around it. With \<open>NewRequest\<close> as the
  specification describes it, the request that reaches \<open>Do\<close> has exactly the bytes of
  \<open>role\<close> as its body, which is never the JSON text of that string.
\<close>

theorem SetHASettings_literal_body:
  "take 1 (snd (snd (SetHASettings (recording c) ctx role (w, []))))
     = [NewRequestCall ''POST'' ''api/v1/configuration/connector/haRole'' (GoString role)]
   \<and> snd (snd (SetHASettings (recording (cj\<lparr>NewRequest := NewRequest_spec\<rparr>)) ctx role (w, [])))
     = [NewRequestCall ''POST'' ''api/v1/configuration/connector/haRole'' (GoString role),
        DoCall ctx
          (Some \<lparr>Method = ''POST'', URL = ''api/v1/configuration/connector/haRole'',
                  Body = Some role\<rparr>)
          None]
   \<and> Some role \<noteq> Some (json (GoString role))"
  by (simp add: SetHASettings_recording json_string_differs [symmetric])
     (simp add: NewRequest_spec_def)

text \<open>
  The role master: the body is the six bytes \<open>master\<close>, and the JSON text of that
  string, which is not sent, has eight.
\<close>

theorem SetHASettings_literal_body_witness:
  "snd (snd (SetHASettings (recording ((answering 200)\<lparr>NewRequest := NewRequest_spec\<rparr>)) ()
               ''master'' (0, [])))
     = [NewRequestCall ''POST'' ''api/v1/configuration/connector/haRole'' (GoString ''master''),
        DoCall ()
          (Some \<lparr>Method = ''POST'', URL = ''api/v1/configuration/connector/haRole'',
                  Body = Some ''master''\<rparr>)
          None]
   \<and> json (GoString ''master'') = CHR 0x22 # ''master'' @ [CHR 0x22]"
proof -
  have quoted: "json (GoString ''master'') = CHR 0x22 # ''master'' @ [CHR 0x22]"
    by (simp add: json_string_def json_char_def)
  show ?thesis
    using SetHASettings_literal_body
      [where cj = "answering 200" and ctx = "()" and role = "''master''" and w = 0,
       THEN conjunct2, THEN conjunct1]
      quoted
    by (rule conjI)
qed

section \<open>Failure of the request builder\<close>

text \<open>
  For each operation: when its builder returns the error \<open>e\<close>, the operation
  returns \<open>e\<close> with a nil response (and a nil decoded value, or the empty role
  string of \<open>GetHASettings\<close>), in the world the builder left; against the
  recording client the builder is the only method logged.
\<close>

lemma CreateBackup_builder_error:
  assumes "NewRequest c ''POST'' ''api/v1/configuration/backup''
         (GoStruct [(''password'', GoString password)]) w = ((req, Some e), w1)"
  shows "CreateBackup c ctx password fl w = ((None, Some e), w1)
       \<and> CreateBackup (recording c) ctx password fl (w, []) =
           ((None, Some e),
            w1, [NewRequestCall ''POST'' ''api/v1/configuration/backup''
                         (GoStruct [(''password'', GoString password)])])"
  using assms by (simp add: CreateBackup_recording) (simp add: CreateBackup_def)

lemma GetCommonProperties_builder_error:
  assumes "NewRequest c ''GET'' ''api/v1/configuration/connector''
         GoNil w = ((req, Some e), w1)"
  shows "GetCommonProperties c ctx w = ((None, None, Some e), w1)
       \<and> GetCommonProperties (recording c) ctx (w, []) =
           ((None, None, Some e),
            w1, [NewRequestCall ''GET'' ''api/v1/configuration/connector''
                         GoNil])"
  using assms by (simp add: GetCommonProperties_recording) (simp add: GetCommonProperties_def)

lemma GetVersion_builder_error:
  assumes "NewRequest c ''GET'' ''api/v1/connector/version''
         GoNil w = ((req, Some e), w1)"
  shows "GetVersion c ctx w = ((None, None, Some e), w1)
       \<and> GetVersion (recording c) ctx (w, []) =
           ((None, None, Some e),
            w1, [NewRequestCall ''GET'' ''api/v1/connector/version''
                         GoNil])"
  using assms by (simp add: GetVersion_recording) (simp add: GetVersion_def)

lemma SetDescription_builder_error:
  assumes "NewRequest c ''PUT'' ''api/v1/configuration/connector''
         (GoStruct [(''description'', GoString description)]) w = ((req, Some e), w1)"
  shows "SetDescription c ctx description w = ((None, None, Some e), w1)
       \<and> SetDescription (recording c) ctx description (w, []) =
           ((None, None, Some e),
            w1, [NewRequestCall ''PUT'' ''api/v1/configuration/connector''
                         (GoStruct [(''description'', GoString description)])])"
  using assms by (simp add: SetDescription_recording) (simp add: SetDescription_def)

lemma GetHASettings_builder_error:
  assumes "NewRequest c ''GET'' ''api/v1/configuration/connector/haRole''
         GoNil w = ((req, Some e), w1)"
  shows "GetHASettings c ctx w = (('''', None, Some e), w1)
       \<and> GetHASettings (recording c) ctx (w, []) =
           (('''', None, Some e),
            w1, [NewRequestCall ''GET'' ''api/v1/configuration/connector/haRole''
                         GoNil])"
  using assms by (simp add: GetHASettings_recording) (simp add: GetHASettings_def)

lemma SetHASettings_builder_error:
  assumes "NewRequest c ''POST'' ''api/v1/configuration/connector/haRole''
         (GoString role) w = ((req, Some e), w1)"
  shows "SetHASettings c ctx role w = ((None, Some e), w1)
       \<and> SetHASettings (recording c) ctx role (w, []) =
           ((None, Some e),
            w1, [NewRequestCall ''POST'' ''api/v1/configuration/connector/haRole''
                         (GoString role)])"
  using assms by (simp add: SetHASettings_recording) (simp add: SetHASettings_def)

lemma GetMasterConfiguration_builder_error:
  assumes "NewRequest c ''GET'' ''api/v1/configuration/connector/ha/master/config''
         GoNil w = ((req, Some e), w1)"
  shows "GetMasterConfiguration c ctx w = ((None, None, Some e), w1)
       \<and> GetMasterConfiguration (recording c) ctx (w, []) =
           ((None, None, Some e),
            w1, [NewRequestCall ''GET'' ''api/v1/configuration/connector/ha/master/config''
                         GoNil])"
  using assms by (simp add: GetMasterConfiguration_recording) (simp add: GetMasterConfiguration_def)

lemma SetMasterConfiguration_builder_error:
  assumes "NewRequest c ''PUT'' ''api/v1/configuration/connector/ha/master/config''
         (MasterConfiguration_value \<lparr>HAEnabled = haEnabled, AllowedShadowHost = allowedShadowHost\<rparr>) w = ((req, Some e), w1)"
  shows "SetMasterConfiguration c ctx haEnabled allowedShadowHost w = ((None, None, Some e), w1)
       \<and> SetMasterConfiguration (recording c) ctx haEnabled allowedShadowHost (w, []) =
           ((None, None, Some e),
            w1, [NewRequestCall ''PUT'' ''api/v1/configuration/connector/ha/master/config''
                         (MasterConfiguration_value \<lparr>HAEnabled = haEnabled, AllowedShadowHost = allowedShadowHost\<rparr>)])"
  using assms by (simp add: SetMasterConfiguration_recording) (simp add: SetMasterConfiguration_def)

lemma GetMasterState_builder_error:
  assumes "NewRequest c ''GET'' ''api/v1/configuration/connector/ha/master/state''
         GoNil w = ((req, Some e), w1)"
  shows "GetMasterState c ctx w = ((None, None, Some e), w1)
       \<and> GetMasterState (recording c) ctx (w, []) =
           ((None, None, Some e),
            w1, [NewRequestCall ''GET'' ''api/v1/configuration/connector/ha/master/state''
                         GoNil])"
  using assms by (simp add: GetMasterState_recording) (simp add: GetMasterState_def)

lemma SetMasterState_builder_error:
  assumes "NewRequest c ''POST'' ''api/v1/configuration/connector/ha/master/state''
         (GoStruct [(''op'', GoString op)]) w = ((req, Some e), w1)"
  shows "SetMasterState c ctx op w = ((None, None, Some e), w1)
       \<and> SetMasterState (recording c) ctx op (w, []) =
           ((None, None, Some e),
            w1, [NewRequestCall ''POST'' ''api/v1/configuration/connector/ha/master/state''
                         (GoStruct [(''op'', GoString op)])])"
  using assms by (simp add: SetMasterState_recording) (simp add: SetMasterState_def)

lemma ResetMaster_builder_error:
  assumes "NewRequest c ''DELETE'' ''api/v1/configuration/connector/ha/master/state''
         GoNil w = ((req, Some e), w1)"
  shows "ResetMaster c ctx w = (Return (None, Some e), w1)
       \<and> ResetMaster (recording c) ctx (w, []) =
           (Return (None, Some e),
            w1, [NewRequestCall ''DELETE'' ''api/v1/configuration/connector/ha/master/state''
                         GoNil])"
  using assms by (simp add: ResetMaster_recording) (simp add: ResetMaster_def)

lemma GetShadowConfiguration_builder_error:
  assumes "NewShadowRequest c ''GET'' ''api/v1/configuration/connector/ha/shadow/config''
         GoNil w = ((req, Some e), w1)"
  shows "GetShadowConfiguration c ctx w = ((None, None, Some e), w1)
       \<and> GetShadowConfiguration (recording c) ctx (w, []) =
           ((None, None, Some e),
            w1, [NewShadowRequestCall ''GET'' ''api/v1/configuration/connector/ha/shadow/config''
                         GoNil])"
  using assms by (simp add: GetShadowConfiguration_recording) (simp add: GetShadowConfiguration_def)

lemma SetShadowConfiguration_builder_error:
  assumes "NewShadowRequest c ''PUT'' ''api/v1/configuration/connector/ha/shadow/config''
         (ShadowConfiguration_value (new_ShadowConfiguration \<lparr>MasterHost := masterHost, MasterPort := masterPort, CheckIntervalInSeconds := checkInterval, TakeoverDelayInSeconds := takeoverDelay, OwnHost := ownHost, ConnectTimeoutInMillis := connectTimeout, RequestTimeoutInMillis := requestTimeout\<rparr>)) w = ((req, Some e), w1)"
  shows "SetShadowConfiguration c ctx masterHost masterPort ownHost checkInterval takeoverDelay connectTimeout requestTimeout w = ((None, None, Some e), w1)
       \<and> SetShadowConfiguration (recording c) ctx masterHost masterPort ownHost checkInterval takeoverDelay connectTimeout requestTimeout (w, []) =
           ((None, None, Some e),
            w1, [NewShadowRequestCall ''PUT'' ''api/v1/configuration/connector/ha/shadow/config''
                         (ShadowConfiguration_value (new_ShadowConfiguration \<lparr>MasterHost := masterHost, MasterPort := masterPort, CheckIntervalInSeconds := checkInterval, TakeoverDelayInSeconds := takeoverDelay, OwnHost := ownHost, ConnectTimeoutInMillis := connectTimeout, RequestTimeoutInMillis := requestTimeout\<rparr>))])"
  using assms by (simp add: SetShadowConfiguration_recording) (simp add: SetShadowConfiguration_def)

lemma GetShawodState_builder_error:
  assumes "NewShadowRequest c ''GET'' ''api/v1/configuration/connector/ha/shadow/state''
         GoNil w = ((req, Some e), w1)"
  shows "GetShawodState c ctx description w = ((None, None, Some e), w1)
       \<and> GetShawodState (recording c) ctx description (w, []) =
           ((None, None, Some e),
            w1, [NewShadowRequestCall ''GET'' ''api/v1/configuration/connector/ha/shadow/state''
                         GoNil])"
  using assms by (simp add: GetShawodState_recording) (simp add: GetShawodState_def)

lemma ChangeShadowState_builder_error:
  assumes "NewShadowRequest c ''POST'' ''api/v1/configuration/connector/ha/shadow/state''
         (GoStruct [(''op'', GoString op), (''user'', GoString user), (''password'', GoString password)]) w = ((req, Some e), w1)"
  shows "ChangeShadowState c ctx op user password w = (Return (None, Some e), w1)
       \<and> ChangeShadowState (recording c) ctx op user password (w, []) =
           (Return (None, Some e),
            w1, [NewShadowRequestCall ''POST'' ''api/v1/configuration/connector/ha/shadow/state''
                         (GoStruct [(''op'', GoString op), (''user'', GoString user), (''password'', GoString password)])])"
  using assms by (simp add: ChangeShadowState_recording) (simp add: ChangeShadowState_def)

lemma ResetShadow_builder_error:
  assumes "NewShadowRequest c ''DELETE'' ''api/v1/configuration/connector/ha/shadow/state''
         GoNil w = ((req, Some e), w1)"
  shows "ResetShadow c ctx w = (Return (None, Some e), w1)
       \<and> ResetShadow (recording c) ctx (w, []) =
           (Return (None, Some e),
            w1, [NewShadowRequestCall ''DELETE'' ''api/v1/configuration/connector/ha/shadow/state''
                         GoNil])"
  using assms by (simp add: ResetShadow_recording) (simp add: ResetShadow_def)

lemma RestoreBackup_builder_error:
  assumes "Stat fl = Inr stat" and "\<not> IsDir stat"
    and "NewUploadRequest c ''PUT'' ''api/v1/configuration/backup'' fl (Size stat)
           (TypeByExtension (Ext (Name fl))) w = ((req, Some e), w1)"
  shows "RestoreBackup TypeByExtension c ctx password fl w = (Return (None, Some e), w1)
       \<and> RestoreBackup TypeByExtension (recording c) ctx password fl (w, []) =
           (Return (None, Some e),
            w1, [NewUploadRequestCall ''PUT'' ''api/v1/configuration/backup'' fl (Size stat)
                         (TypeByExtension (Ext (Name fl)))])"
  using assms by (simp add: RestoreBackup_recording) (simp add: RestoreBackup_def)

text \<open>
  C10. Every one of the seventeen operations, when its request builder (NewRequest,
  NewShadowRequest or NewUploadRequest) returns an error \<open>e\<close>, returns that error
  with a nil response, and a nil decoded value where it returns one (the role string
  of \<open>GetHASettings\<close>, which cannot be nil, is empty); the world is the one the
  builder left, and the recording client has logged the builder and no \<open>Do\<close>. For
  \<open>RestoreBackup\<close> the builder is reached on a file that is not a directory.
\<close>

theorem builder_error_returned_without_Do:
  "(NewRequest cf ''POST'' ''api/v1/configuration/backup''
        (GoStruct [(''password'', GoString password)]) w = ((req, Some e), w1)
    \<longrightarrow> CreateBackup cf ctx password fl w = ((None, Some e), w1)
      \<and> CreateBackup (recording cf) ctx password fl (w, []) =
          ((None, Some e),
           w1, [NewRequestCall ''POST'' ''api/v1/configuration/backup''
                        (GoStruct [(''password'', GoString password)])]))
   \<and> (Stat fl = Inr stat \<and> \<not> IsDir stat
      \<and> NewUploadRequest c ''PUT'' ''api/v1/configuration/backup'' fl (Size stat)
           (TypeByExtension (Ext (Name fl))) w = ((req, Some e), w1)
    \<longrightarrow> RestoreBackup TypeByExtension c ctx password fl w = (Return (None, Some e), w1)
      \<and> RestoreBackup TypeByExtension (recording c) ctx password fl (w, []) =
          (Return (None, Some e),
           w1, [NewUploadRequestCall ''PUT'' ''api/v1/configuration/backup'' fl (Size stat)
                        (TypeByExtension (Ext (Name fl)))]))
   \<and> (NewRequest cp ''GET'' ''api/v1/configuration/connector''
        GoNil w = ((req, Some e), w1)
    \<longrightarrow> GetCommonProperties cp ctx w = ((None, None, Some e), w1)
      \<and> GetCommonProperties (recording cp) ctx (w, []) =
          ((None, None, Some e),
           w1, [NewRequestCall ''GET'' ''api/v1/configuration/connector''
                        GoNil]))
   \<and> (NewRequest cv ''GET'' ''api/v1/connector/version''
        GoNil w = ((req, Some e), w1)
    \<longrightarrow> GetVersion cv ctx w = ((None, None, Some e), w1)
      \<and> GetVersion (recording cv) ctx (w, []) =
          ((None, None, Some e),
           w1, [NewRequestCall ''GET'' ''api/v1/connector/version''
                        GoNil]))
   \<and> (NewRequest cp ''PUT'' ''api/v1/configuration/connector''
        (GoStruct [(''description'', GoString description)]) w = ((req, Some e), w1)
    \<longrightarrow> SetDescription cp ctx description w = ((None, None, Some e), w1)
      \<and> SetDescription (recording cp) ctx description (w, []) =
          ((None, None, Some e),
           w1, [NewRequestCall ''PUT'' ''api/v1/configuration/connector''
                        (GoStruct [(''description'', GoString description)])]))
   \<and> (NewRequest cb ''GET'' ''api/v1/configuration/connector/haRole''
        GoNil w = ((req, Some e), w1)
    \<longrightarrow> GetHASettings cb ctx w = (('''', None, Some e), w1)
      \<and> GetHASettings (recording cb) ctx (w, []) =
          (('''', None, Some e),
           w1, [NewRequestCall ''GET'' ''api/v1/configuration/connector/haRole''
                        GoNil]))
   \<and> (NewRequest c ''POST'' ''api/v1/configuration/connector/haRole''
        (GoString role) w = ((req, Some e), w1)
    \<longrightarrow> SetHASettings c ctx role w = ((None, Some e), w1)
      \<and> SetHASettings (recording c) ctx role (w, []) =
          ((None, Some e),
           w1, [NewRequestCall ''POST'' ''api/v1/configuration/connector/haRole''
                        (GoString role)]))
   \<and> (NewRequest cm ''GET'' ''api/v1/configuration/connector/ha/master/config''
        GoNil w = ((req, Some e), w1)
    \<longrightarrow> GetMasterConfiguration cm ctx w = ((None, None, Some e), w1)
      \<and> GetMasterConfiguration (recording cm) ctx (w, []) =
          ((None, None, Some e),
           w1, [NewRequestCall ''GET'' ''api/v1/configuration/connector/ha/master/config''
                        GoNil]))
   \<and> (NewRequest cm ''PUT'' ''api/v1/configuration/connector/ha/master/config''
        (MasterConfiguration_value \<lparr>HAEnabled = haEnabled, AllowedShadowHost = allowedShadowHost\<rparr>) w = ((req, Some e), w1)
    \<longrightarrow> SetMasterConfiguration cm ctx haEnabled allowedShadowHost w = ((None, None, Some e), w1)
      \<and> SetMasterConfiguration (recording cm) ctx haEnabled allowedShadowHost (w, []) =
          ((None, None, Some e),
           w1, [NewRequestCall ''PUT'' ''api/v1/configuration/connector/ha/master/config''
                        (MasterConfiguration_value \<lparr>HAEnabled = haEnabled, AllowedShadowHost = allowedShadowHost\<rparr>)]))
   \<and> (NewRequest ct ''GET'' ''api/v1/configuration/connector/ha/master/state''
        GoNil w = ((req, Some e), w1)
    \<longrightarrow> GetMasterState ct ctx w = ((None, None, Some e), w1)
      \<and> GetMasterState (recording ct) ctx (w, []) =
          ((None, None, Some e),
           w1, [NewRequestCall ''GET'' ''api/v1/configuration/connector/ha/master/state''
                        GoNil]))
   \<and> (NewRequest ct ''POST'' ''api/v1/configuration/connector/ha/master/state''
        (GoStruct [(''op'', GoString op)]) w = ((req, Some e), w1)
    \<longrightarrow> SetMasterState ct ctx op w = ((None, None, Some e), w1)
      \<and> SetMasterState (recording ct) ctx op (w, []) =
          ((None, None, Some e),
           w1, [NewRequestCall ''POST'' ''api/v1/configuration/connector/ha/master/state''
                        (GoStruct [(''op'', GoString op)])]))
   \<and> (NewRequest c ''DELETE'' ''api/v1/configuration/connector/ha/master/state''
        GoNil w = ((req, Some e), w1)
    \<longrightarrow> ResetMaster c ctx w = (Return (None, Some e), w1)
      \<and> ResetMaster (recording c) ctx (w, []) =
          (Return (None, Some e),
           w1, [NewRequestCall ''DELETE'' ''api/v1/configuration/connector/ha/master/state''
                        GoNil]))
   \<and> (NewShadowRequest cc ''GET'' ''api/v1/configuration/connector/ha/shadow/config''
        GoNil w = ((req, Some e), w1)
    \<longrightarrow> GetShadowConfiguration cc ctx w = ((None, None, Some e), w1)
      \<and> GetShadowConfiguration (recording cc) ctx (w, []) =
          ((None, None, Some e),
           w1, [NewShadowRequestCall ''GET'' ''api/v1/configuration/connector/ha/shadow/config''
                        GoNil]))
   \<and> (NewShadowRequest cc ''PUT'' ''api/v1/configuration/connector/ha/shadow/config''
        (ShadowConfiguration_value (new_ShadowConfiguration \<lparr>MasterHost := masterHost, MasterPort := masterPort, CheckIntervalInSeconds := checkInterval, TakeoverDelayInSeconds := takeoverDelay, OwnHost := ownHost, ConnectTimeoutInMillis := connectTimeout, RequestTimeoutInMillis := requestTimeout\<rparr>)) w = ((req, Some e), w1)
    \<longrightarrow> SetShadowConfiguration cc ctx masterHost masterPort ownHost checkInterval takeoverDelay connectTimeout requestTimeout w = ((None, None, Some e), w1)
      \<and> SetShadowConfiguration (recording cc) ctx masterHost masterPort ownHost checkInterval takeoverDelay connectTimeout requestTimeout (w, []) =
          ((None, None, Some e),
           w1, [NewShadowRequestCall ''PUT'' ''api/v1/configuration/connector/ha/shadow/config''
                        (ShadowConfiguration_value (new_ShadowConfiguration \<lparr>MasterHost := masterHost, MasterPort := masterPort, CheckIntervalInSeconds := checkInterval, TakeoverDelayInSeconds := takeoverDelay, OwnHost := ownHost, ConnectTimeoutInMillis := connectTimeout, RequestTimeoutInMillis := requestTimeout\<rparr>))]))
   \<and> (NewShadowRequest cs ''GET'' ''api/v1/configuration/connector/ha/shadow/state''
        GoNil w = ((req, Some e), w1)
    \<longrightarrow> GetShawodState cs ctx description w = ((None, None, Some e), w1)
      \<and> GetShawodState (recording cs) ctx description (w, []) =
          ((None, None, Some e),
           w1, [NewShadowRequestCall ''GET'' ''api/v1/configuration/connector/ha/shadow/state''
                        GoNil]))
   \<and> (NewShadowRequest c ''POST'' ''api/v1/configuration/connector/ha/shadow/state''
        (GoStruct [(''op'', GoString op), (''user'', GoString user), (''password'', GoString password)]) w = ((req, Some e), w1)
    \<longrightarrow> ChangeShadowState c ctx op user password w = (Return (None, Some e), w1)
      \<and> ChangeShadowState (recording c) ctx op user password (w, []) =
          (Return (None, Some e),
           w1, [NewShadowRequestCall ''POST'' ''api/v1/configuration/connector/ha/shadow/state''
                        (GoStruct [(''op'', GoString op), (''user'', GoString user), (''password'', GoString password)])]))
   \<and> (NewShadowRequest c ''DELETE'' ''api/v1/configuration/connector/ha/shadow/state''
        GoNil w = ((req, Some e), w1)
    \<longrightarrow> ResetShadow c ctx w = (Return (None, Some e), w1)
      \<and> ResetShadow (recording c) ctx (w, []) =
          (Return (None, Some e),
           w1, [NewShadowRequestCall ''DELETE'' ''api/v1/configuration/connector/ha/shadow/state''
                        GoNil]))"
  by (intro conjI; rule impI; (elim conjE)?;
      (rule CreateBackup_builder_error
       | rule RestoreBackup_builder_error
       | rule GetCommonProperties_builder_error
       | rule GetVersion_builder_error
       | rule SetDescription_builder_error
       | rule GetHASettings_builder_error
       | rule SetHASettings_builder_error
       | rule GetMasterConfiguration_builder_error
       | rule SetMasterConfiguration_builder_error
       | rule GetMasterState_builder_error
       | rule SetMasterState_builder_error
       | rule ResetMaster_builder_error
       | rule GetShadowConfiguration_builder_error
       | rule SetShadowConfiguration_builder_error
       | rule GetShawodState_builder_error
       | rule ChangeShadowState_builder_error
       | rule ResetShadow_builder_error);
      assumption)

text \<open>
  The seventeen operations against a stub whose builders refuse every request: each
  log ends after the builder.
\<close>

theorem builder_error_returned_without_Do_witness:
  "CreateBackup (recording (refusing backup_zip)) () ''secret'' backup_zip (0, []) =
       ((None, Some (ClientError ''bad url'')),
        0, [NewRequestCall ''POST'' ''api/v1/configuration/backup''
              (GoStruct [(''password'', GoString ''secret'')])])
   \<and> RestoreBackup mime_table (recording (refusing ())) () ''secret'' backup_zip (0, []) =
       (Return (None, Some (ClientError ''bad url'')),
        0, [NewUploadRequestCall ''PUT'' ''api/v1/configuration/backup'' backup_zip 3
              ''application/zip''])
   \<and> GetCommonProperties (recording (refusing new_CommonProperties)) () (0, []) =
       ((None, None, Some (ClientError ''bad url'')),
        0, [NewRequestCall ''GET'' ''api/v1/configuration/connector''
              GoNil])
   \<and> GetVersion (recording (refusing new_Version)) () (0, []) =
       ((None, None, Some (ClientError ''bad url'')),
        0, [NewRequestCall ''GET'' ''api/v1/connector/version''
              GoNil])
   \<and> SetDescription (recording (refusing new_CommonProperties)) () ''x'' (0, []) =
       ((None, None, Some (ClientError ''bad url'')),
        0, [NewRequestCall ''PUT'' ''api/v1/configuration/connector''
              (GoStruct [(''description'', GoString ''x'')])])
   \<and> GetHASettings (recording (refusing '''')) () (0, []) =
       (('''', None, Some (ClientError ''bad url'')),
        0, [NewRequestCall ''GET'' ''api/v1/configuration/connector/haRole''
              GoNil])
   \<and> SetHASettings (recording (refusing ())) () ''master'' (0, []) =
       ((None, Some (ClientError ''bad url'')),
        0, [NewRequestCall ''POST'' ''api/v1/configuration/connector/haRole''
              (GoString ''master'')])
   \<and> GetMasterConfiguration (recording (refusing new_MasterConfiguration)) () (0, []) =
       ((None, None, Some (ClientError ''bad url'')),
        0, [NewRequestCall ''GET'' ''api/v1/configuration/connector/ha/master/config''
              GoNil])
   \<and> SetMasterConfiguration (recording (refusing new_MasterConfiguration)) () True ''h'' (0, []) =
       ((None, None, Some (ClientError ''bad url'')),
        0, [NewRequestCall ''PUT'' ''api/v1/configuration/connector/ha/master/config''
              (MasterConfiguration_value \<lparr>HAEnabled = True, AllowedShadowHost = ''h''\<rparr>)])
   \<and> GetMasterState (recording (refusing new_MasterState)) () (0, []) =
       ((None, None, Some (ClientError ''bad url'')),
        0, [NewRequestCall ''GET'' ''api/v1/configuration/connector/ha/master/state''
              GoNil])
   \<and> SetMasterState (recording (refusing new_MasterState)) () ''SWITCH'' (0, []) =
       ((None, None, Some (ClientError ''bad url'')),
        0, [NewRequestCall ''POST'' ''api/v1/configuration/connector/ha/master/state''
              (GoStruct [(''op'', GoString ''SWITCH'')])])
   \<and> ResetMaster (recording (refusing ())) () (0, []) =
       (Return (None, Some (ClientError ''bad url'')),
        0, [NewRequestCall ''DELETE'' ''api/v1/configuration/connector/ha/master/state''
              GoNil])
   \<and> GetShadowConfiguration (recording (refusing new_ShadowConfiguration)) () (0, []) =
       ((None, None, Some (ClientError ''bad url'')),
        0, [NewShadowRequestCall ''GET'' ''api/v1/configuration/connector/ha/shadow/config''
              GoNil])
   \<and> SetShadowConfiguration (recording (refusing new_ShadowConfiguration)) () ''m'' ''8443'' ''s'' 30 60 1000 2000 (0, []) =
       ((None, None, Some (ClientError ''bad url'')),
        0, [NewShadowRequestCall ''PUT'' ''api/v1/configuration/connector/ha/shadow/config''
              (ShadowConfiguration_value (new_ShadowConfiguration \<lparr>MasterHost := ''m'', MasterPort := ''8443'', CheckIntervalInSeconds := 30, TakeoverDelayInSeconds := 60, OwnHost := ''s'', ConnectTimeoutInMillis := 1000, RequestTimeoutInMillis := 2000\<rparr>))])
   \<and> GetShawodState (recording (refusing new_ShadowState)) () ''x'' (0, []) =
       ((None, None, Some (ClientError ''bad url'')),
        0, [NewShadowRequestCall ''GET'' ''api/v1/configuration/connector/ha/shadow/state''
              GoNil])
   \<and> ChangeShadowState (recording (refusing ())) () ''SWITCH'' ''admin'' ''secret'' (0, []) =
       (Return (None, Some (ClientError ''bad url'')),
        0, [NewShadowRequestCall ''POST'' ''api/v1/configuration/connector/ha/shadow/state''
              (GoStruct [(''op'', GoString ''SWITCH''), (''user'', GoString ''admin''), (''password'', GoString ''secret'')])])
   \<and> ResetShadow (recording (refusing ())) () (0, []) =
       (Return (None, Some (ClientError ''bad url'')),
        0, [NewShadowRequestCall ''DELETE'' ''api/v1/configuration/connector/ha/shadow/state''
              GoNil])"
proof -
  have ext: "Ext (Name backup_zip) = ''.zip''"
    by (simp add: backup_zip_def Ext_def)
  have st: "Stat backup_zip = Inr \<lparr>IsDir = False, Size = 3\<rparr>"
    by (simp add: backup_zip_def)
  note refused = builder_error_returned_without_Do
    [where cf = "refusing backup_zip" and cp = "refusing new_CommonProperties"
       and cv = "refusing new_Version" and cb = "refusing ''''"
       and cm = "refusing new_MasterConfiguration" and ct = "refusing new_MasterState"
       and cc = "refusing new_ShadowConfiguration" and cs = "refusing new_ShadowState"
       and c = "refusing ()" and ctx = "()" and w = 0 and ?w1.0 = 0
       and req = None and e = "ClientError ''bad url''"
       and fl = backup_zip and stat = "\<lparr>IsDir = False, Size = 3\<rparr>"
       and TypeByExtension = mime_table
       and password = "''secret''" and description = "''x''" and role = "''master''"
       and haEnabled = True and allowedShadowHost = "''h''" and op = "''SWITCH''"
       and user = "''admin''" and masterHost = "''m''" and masterPort = "''8443''"
       and ownHost = "''s''" and checkInterval = 30 and takeoverDelay = 60
       and connectTimeout = 1000 and requestTimeout = 2000]
  have builders:
    "NewRequest (refusing v) m u b (0::nat) = ((None, Some (ClientError ''bad url'')), 0)"
    "NewShadowRequest (refusing v) m u b (0::nat) = ((None, Some (ClientError ''bad url'')), 0)"
    "NewUploadRequest (refusing v) m u backup_zip n t (0::nat)
       = ((None, Some (ClientError ''bad url'')), 0)"
    for v :: 'v and m u b n t
    by (simp_all add: refusing_def)
  show ?thesis
    using refused by (simp add: builders st ext mime_table_def)
qed

end
